theory Spec2Isabelle
  imports Main "HOL-Library.Word"
begin

unbundle bit_operations_syntax

section \<open>The MD5 digest used by the name derivation\<close>

text \<open>
  \<^verbatim>\<open>DeviceManager._find_unique_name\<close> and \<^verbatim>\<open>DeviceManager._generate_unique_name\<close>
  call \<^verbatim>\<open>hashlib.md5(...).hexdigest()\<close> on the bytes that \<^verbatim>\<open>str.encode()\<close> yields.
  The digest is modelled as RFC 1321 defines it: the message, a list of bytes, is padded to
  a multiple of 64 bytes, and every 64-byte block updates four 32-bit words in 64 steps.
  The digest is written as 32 lower-case hexadecimal characters.
\<close>

type_synonym u32 = "32 word"
type_synonym byte = "8 word"
type_synonym md5_state = "u32 \<times> u32 \<times> u32 \<times> u32"

definition md5_K :: "u32 list" where
  "md5_K = [
    0xd76aa478, 0xe8c7b756, 0x242070db, 0xc1bdceee,
    0xf57c0faf, 0x4787c62a, 0xa8304613, 0xfd469501,
    0x698098d8, 0x8b44f7af, 0xffff5bb1, 0x895cd7be,
    0x6b901122, 0xfd987193, 0xa679438e, 0x49b40821,
    0xf61e2562, 0xc040b340, 0x265e5a51, 0xe9b6c7aa,
    0xd62f105d, 0x02441453, 0xd8a1e681, 0xe7d3fbc8,
    0x21e1cde6, 0xc33707d6, 0xf4d50d87, 0x455a14ed,
    0xa9e3e905, 0xfcefa3f8, 0x676f02d9, 0x8d2a4c8a,
    0xfffa3942, 0x8771f681, 0x6d9d6122, 0xfde5380c,
    0xa4beea44, 0x4bdecfa9, 0xf6bb4b60, 0xbebfbc70,
    0x289b7ec6, 0xeaa127fa, 0xd4ef3085, 0x04881d05,
    0xd9d4d039, 0xe6db99e5, 0x1fa27cf8, 0xc4ac5665,
    0xf4292244, 0x432aff97, 0xab9423a7, 0xfc93a039,
    0x655b59c3, 0x8f0ccc92, 0xffeff47d, 0x85845dd1,
    0x6fa87e4f, 0xfe2ce6e0, 0xa3014314, 0x4e0811a1,
    0xf7537e82, 0xbd3af235, 0x2ad7d2bb, 0xeb86d391]"

definition md5_S :: "nat list" where
  "md5_S = [
    7, 12, 17, 22, 7, 12, 17, 22, 7, 12, 17, 22, 7, 12, 17, 22,
    5, 9, 14, 20, 5, 9, 14, 20, 5, 9, 14, 20, 5, 9, 14, 20,
    4, 11, 16, 23, 4, 11, 16, 23, 4, 11, 16, 23, 4, 11, 16, 23,
    6, 10, 15, 21, 6, 10, 15, 21, 6, 10, 15, 21, 6, 10, 15, 21]"

definition rotl32 :: "u32 \<Rightarrow> nat \<Rightarrow> u32" where
  "rotl32 x n = push_bit n x OR drop_bit (32 - n) x"

fun md5_step :: "u32 list \<Rightarrow> nat \<Rightarrow> md5_state \<Rightarrow> md5_state" where
  "md5_step M i (a, b, c, d) =
     (let (f, g) =
        (if i < 16 then ((b AND c) OR (NOT b AND d), i)
         else if i < 32 then ((d AND b) OR (NOT d AND c), (5 * i + 1) mod 16)
         else if i < 48 then (b XOR c XOR d, (3 * i + 5) mod 16)
         else (c XOR (b OR NOT d), (7 * i) mod 16));
        f' = f + a + md5_K ! i + M ! g
      in (d, b + rotl32 f' (md5_S ! i), b, c))"

fun md5_block :: "md5_state \<Rightarrow> u32 list \<Rightarrow> md5_state" where
  "md5_block (a0, b0, c0, d0) M =
     (case fold (md5_step M) [0..<64] (a0, b0, c0, d0) of
        (a, b, c, d) \<Rightarrow> (a0 + a, b0 + b, c0 + c, d0 + d))"

definition le_bytes32 :: "u32 \<Rightarrow> byte list" where
  "le_bytes32 w = map (\<lambda>i. ucast (drop_bit (8 * i) w)) [0..<4]"

definition le_bytes64 :: "64 word \<Rightarrow> byte list" where
  "le_bytes64 w = map (\<lambda>i. ucast (drop_bit (8 * i) w)) [0..<8]"

definition le_word32 :: "byte list \<Rightarrow> u32" where
  "le_word32 bs = foldr (\<lambda>b w. ucast b OR push_bit 8 w) bs 0"

definition md5_pad :: "byte list \<Rightarrow> byte list" where
  "md5_pad m = m @ [0x80] @ replicate ((119 - length m mod 64) mod 64) 0
                 @ le_bytes64 (of_nat (8 * length m))"

definition md5_words :: "byte list \<Rightarrow> u32 list" where
  "md5_words bs = map (\<lambda>i. le_word32 (take 4 (drop (4 * i) bs))) [0..<length bs div 4]"

definition md5_blocks :: "byte list \<Rightarrow> u32 list list" where
  "md5_blocks bs = map (\<lambda>i. md5_words (take 64 (drop (64 * i) bs))) [0..<length bs div 64]"

definition md5_init :: md5_state where
  "md5_init = (0x67452301, 0xefcdab89, 0x98badcfe, 0x10325476)"

definition md5_digest :: "byte list \<Rightarrow> byte list" where
  "md5_digest m =
     (case fold (\<lambda>M s. md5_block s M) (md5_blocks (md5_pad m)) md5_init of
        (a, b, c, d) \<Rightarrow> le_bytes32 a @ le_bytes32 b @ le_bytes32 c @ le_bytes32 d)"

definition hex_digit :: "nat \<Rightarrow> char" where
  "hex_digit n = ''0123456789abcdef'' ! (n mod 16)"

definition hex_byte :: "byte \<Rightarrow> string" where
  "hex_byte b = [hex_digit (unat b div 16), hex_digit (unat b mod 16)]"

definition hexdigest :: "byte list \<Rightarrow> string" where
  "hexdigest bs = concat (map hex_byte bs)"

definition md5_hexdigest :: "byte list \<Rightarrow> string" where
  "md5_hexdigest m = hexdigest (md5_digest m)"

section \<open>Exceptions and the state of the agent\<close>

text \<open>
  \<^verbatim>\<open>RpcCommandError(message, cmd_result)\<close> keeps the dictionary
  \<^verbatim>\<open>{'stdout': ..., 'stderr': ...}\<close>; \<open>ExecuteError\<close> stands for whatever exception
  \<^verbatim>\<open>execute\<close> raises (the code only ever reads its \<^verbatim>\<open>str\<close>); \<open>BadRequest\<close> is the
  werkzeug exception the two commands raise, with its description;
  \<open>UnicodeEncodeError\<close> is what \<^verbatim>\<open>str.encode()\<close> raises. In Python it is a subclass of
  \<^verbatim>\<open>ValueError\<close>, so an \<^verbatim>\<open>except ValueError\<close> clause catches it. Its text is only ever
  logged and is not modelled.
\<close>

record cmd_result =
  stdout :: string
  stderr :: string

datatype exn =
    ExecuteError string
  | ValueError string
  | UnicodeEncodeError
  | RpcCommandError string cmd_result
  | BadRequest string

text \<open>
  \<^verbatim>\<open>execute(*cmd)\<close> is \<^verbatim>\<open>ironic_python_agent.utils.execute\<close>, which is outside the
  source files. A call of it has one of three outcomes: it returns the pair
  \<^verbatim>\<open>(stdout, stderr)\<close>; it raises because the process could not be started, with the text
  of that exception; or the process runs and \<^verbatim>\<open>execute\<close> raises all the same (the
  \<^verbatim>\<open>ProcessExecutionError\<close> of \<^verbatim>\<open>oslo_concurrency.processutils\<close>, which the source
  imports, for an exit status it does not accept), with the exit status, the output and
  error stream captured, and the text of the exception. Which outcome a call has is the
  environment's choice, so every function that runs a command takes the environment as a
  function from the argument vector to the outcome.
\<close>

datatype exec_result =
    Returned string string
  | LaunchError string
  | ProcessExecutionError int string string string

type_synonym executor = "string list \<Rightarrow> exec_result"

text \<open>
  The state: \<^verbatim>\<open>DeviceManager._created_devices\<close>, and the list of the argument vectors
  passed to \<^verbatim>\<open>execute\<close> so far, oldest first. \<^verbatim>\<open>persist_devices\<close> writes
  \<^verbatim>\<open>devices.json\<close> and swallows every exception; it never changes
  \<^verbatim>\<open>_created_devices\<close>, and none of the functions below reads the file, so the file is
  not part of the state. Logging is left out for the same reason.
\<close>

record world =
  created_devices :: "string set"
  executed :: "string list list"

type_synonym 'a outcome = "(exn + 'a) \<times> world"

subsection \<open>Python strings\<close>

text \<open>
  A Python \<^verbatim>\<open>str\<close> is a sequence of code points. It is modelled by the list of bytes
  obtained by writing each code point in the UTF-8 scheme, one after the other; a surrogate
  (U+D800 to U+DFFF, which a \<^verbatim>\<open>str\<close> may hold, and which \<^verbatim>\<open>json.loads\<close> delivers for
  an escape such as \<^verbatim>\<open>\ud800\<close>) is written in the same scheme, as the three bytes
  \<open>ED\<close>, \<open>A0\<close> to \<open>BF\<close>, \<open>80\<close> to \<open>BF\<close>. ASCII text is its own model, and
  concatenating two strings concatenates their models. \<open>has_surrogate\<close> finds a
  surrogate in such a list.
\<close>

fun has_surrogate :: "string \<Rightarrow> bool" where
  "has_surrogate (a # b # cs) =
     ((a = CHR 0xED \<and> 0xA0 \<le> (of_char b :: nat) \<and> (of_char b :: nat) \<le> 0xBF)
      \<or> has_surrogate (b # cs))"
| "has_surrogate cs = False"

definition utf8_bytes :: "string \<Rightarrow> byte list" where
  "utf8_bytes s = map (\<lambda>c. of_nat (of_char c)) s"

text \<open>
  \<^verbatim>\<open>str.encode()\<close>: the UTF-8 bytes of the string; a surrogate cannot be encoded and
  raises \<^verbatim>\<open>UnicodeEncodeError\<close>.
\<close>

definition encode :: "string \<Rightarrow> exn + byte list" where
  "encode s = (if has_surrogate s then Inl UnicodeEncodeError else Inr (utf8_bytes s))"

subsection \<open>The text of an exception\<close>

text \<open>
  \<^verbatim>\<open>RpcCommandError.__str__\<close> formats the dictionary \<^verbatim>\<open>cmd_result\<close>, which prints each
  of its two strings with Python's built-in \<^verbatim>\<open>repr\<close>. The built-in is not part of the
  source and is taken as the parameter \<open>repr\<close> by every function that may build such a
  text. \<open>str_exn\<close> is \<^verbatim>\<open>str(e)\<close> for the exceptions that reach an
  \<^verbatim>\<open>except Exception as e\<close> clause whose handler formats \<^verbatim>\<open>e\<close>: those of
  \<^verbatim>\<open>execute\<close> and \<^verbatim>\<open>RpcCommandError\<close>; the text of a \<^verbatim>\<open>ValueError\<close> is its
  message. A \<^verbatim>\<open>UnicodeEncodeError\<close> is raised before any \<^verbatim>\<open>try\<close> block of the
  \<^verbatim>\<open>execute_rpc_*\<close> methods is entered and is never formatted, so \<open>str_exn\<close> says
  nothing about it.
\<close>

definition repr_cmd_result :: "(string \<Rightarrow> string) \<Rightarrow> cmd_result \<Rightarrow> string" where
  "repr_cmd_result repr r =
     ''{'stdout': '' @ repr (stdout r) @ '', 'stderr': '' @ repr (stderr r) @ ''}''"

fun str_exn :: "(string \<Rightarrow> string) \<Rightarrow> exn \<Rightarrow> string" where
  "str_exn repr (ExecuteError m) = m"
| "str_exn repr (ValueError m) = m"
| "str_exn repr (RpcCommandError base_msg r) =
     base_msg @ ''. Cmd Result: '' @ repr_cmd_result repr r"
| "str_exn repr (BadRequest d) = ''400 Bad Request: '' @ d"

section \<open>DeviceManager\<close>

definition find_unique_name :: "string \<Rightarrow> string \<Rightarrow> string \<Rightarrow> world \<Rightarrow> string outcome" where
  "find_unique_name prefix ip iqn w =
     (case encode (ip @ ''_'' @ iqn) of
        Inl e \<Rightarrow> (Inl e, w)
      | Inr data \<Rightarrow>
          let unique_hash = take 8 (md5_hexdigest data);
              unique_name = prefix @ unique_hash
          in (Inr unique_name, w))"

definition generate_unique_name :: "string \<Rightarrow> string \<Rightarrow> string \<Rightarrow> world \<Rightarrow> string outcome" where
  "generate_unique_name prefix ip iqn w =
     (case encode (ip @ ''_'' @ iqn) of
        Inl e \<Rightarrow> (Inl e, w)
      | Inr data \<Rightarrow>
          let unique_hash = take 8 (md5_hexdigest data);
              unique_name = prefix @ unique_hash
          in if unique_name \<in> created_devices w
             then (Inl (ValueError (''Device name '' @ [CHR 0x27] @ unique_name @ [CHR 0x27]
                                      @ '' already exists.'')), w)
             else (Inr unique_name, w))"

definition add_device_name :: "string \<Rightarrow> world \<Rightarrow> unit outcome" where
  "add_device_name device_name w =
     (Inr (), w\<lparr>created_devices := insert device_name (created_devices w)\<rparr>)"

definition remove_device_name :: "string \<Rightarrow> world \<Rightarrow> unit outcome" where
  "remove_device_name device_name w =
     (Inr (), w\<lparr>created_devices := created_devices w - {device_name}\<rparr>)"

definition get_iscsi_name :: "string \<Rightarrow> string \<Rightarrow> world \<Rightarrow> string outcome" where
  "get_iscsi_name ip iqn w = generate_unique_name ''iscsi'' ip iqn w"

definition get_blk_name :: "string \<Rightarrow> string \<Rightarrow> world \<Rightarrow> string outcome" where
  "get_blk_name ip iqn w = generate_unique_name ''blk'' ip iqn w"

definition check_iscsi_name :: "string \<Rightarrow> string \<Rightarrow> world \<Rightarrow> string outcome" where
  "check_iscsi_name ip iqn w =
     (case find_unique_name ''iscsi'' ip iqn w of
        (Inl e, w1) \<Rightarrow> (Inl e, w1)
      | (Inr iscsi_name, w1) \<Rightarrow>
          if iscsi_name \<notin> created_devices w1
          then (Inl (ValueError (''iSCSI name '' @ [CHR 0x27] @ iscsi_name @ [CHR 0x27]
                                   @ '' does not exist.'')), w1)
          else (Inr iscsi_name, w1))"

definition check_blk_name :: "string \<Rightarrow> string \<Rightarrow> world \<Rightarrow> string outcome" where
  "check_blk_name ip iqn w =
     (case find_unique_name ''blk'' ip iqn w of
        (Inl e, w1) \<Rightarrow> (Inl e, w1)
      | (Inr blk_name, w1) \<Rightarrow>
          if blk_name \<notin> created_devices w1
          then (Inl (ValueError (''Block device name '' @ [CHR 0x27] @ blk_name @ [CHR 0x27]
                                   @ '' does not exist.'')), w1)
          else (Inr blk_name, w1))"

text \<open>
  The name that \<^verbatim>\<open>_find_unique_name\<close> and \<^verbatim>\<open>_generate_unique_name\<close> both compute
  when the string they format can be encoded (see \<open>find_unique_name_eq\<close> and
  \<open>generate_unique_name_eq\<close>).
\<close>

definition encodable :: "string \<Rightarrow> string \<Rightarrow> bool" where
  "encodable ip iqn = (\<not> has_surrogate (ip @ ''_'' @ iqn))"

definition unique_name :: "string \<Rightarrow> string \<Rightarrow> string \<Rightarrow> string" where
  "unique_name prefix ip iqn = prefix @ take 8 (md5_hexdigest (utf8_bytes (ip @ ''_'' @ iqn)))"

section \<open>Sequencing, raising and catching\<close>

text \<open>
  A method is a function from the state to an outcome: \<open>Inl e\<close> when it raises \<open>e\<close>,
  \<open>Inr v\<close> when it returns \<open>v\<close>, with the state it leaves. \<open>seq\<close> runs one statement
  after another and stops at the first exception; \<open>try_except\<close> is a
  \<^verbatim>\<open>try: ... except Exception as e: ...\<close> block.
\<close>

definition ret :: "'a \<Rightarrow> world \<Rightarrow> 'a outcome" where
  "ret v w = (Inr v, w)"

definition raise :: "exn \<Rightarrow> world \<Rightarrow> 'a outcome" where
  "raise e w = (Inl e, w)"

definition seq :: "(world \<Rightarrow> 'a outcome) \<Rightarrow> ('a \<Rightarrow> world \<Rightarrow> 'b outcome) \<Rightarrow> world \<Rightarrow> 'b outcome" where
  "seq m f w = (case m w of (Inl e, w1) \<Rightarrow> (Inl e, w1) | (Inr v, w1) \<Rightarrow> f v w1)"

definition try_except :: "(world \<Rightarrow> 'a outcome) \<Rightarrow> (exn \<Rightarrow> world \<Rightarrow> 'a outcome) \<Rightarrow> world \<Rightarrow> 'a outcome" where
  "try_except m h w = (case m w of (Inl e, w1) \<Rightarrow> h e w1 | (Inr v, w1) \<Rightarrow> (Inr v, w1))"

text \<open>
  \<^verbatim>\<open>stdout, stderr = execute(*cmd)\<close>: the command is appended to the list of executed
  commands, and the environment decides whether the call returns or raises.
\<close>

definition execute :: "executor \<Rightarrow> string list \<Rightarrow> world \<Rightarrow> (string \<times> string) outcome" where
  "execute ex cmd w =
     (let w1 = w\<lparr>executed := executed w @ [cmd]\<rparr>
      in case ex cmd of
           Returned out err \<Rightarrow> (Inr (out, err), w1)
         | LaunchError m \<Rightarrow> (Inl (ExecuteError m), w1)
         | ProcessExecutionError exit_code out err m \<Rightarrow> (Inl (ExecuteError m), w1))"

section \<open>RpcManager\<close>

definition cmd_bdev_iscsi_create :: "string \<Rightarrow> string \<Rightarrow> string \<Rightarrow> string list" where
  "cmd_bdev_iscsi_create iscsi_value iqn ip =
     [''nbl_stor_rpc.py'', ''bdev_iscsi_create'', ''-b'', iscsi_value, ''-i'', iqn @ ''/0'',
      ''--url'', ''iscsi://'' @ ip @ ''/'' @ iqn @ ''/0'']"

definition cmd_emulator_virtio_blk_device_create :: "string \<Rightarrow> string \<Rightarrow> string list" where
  "cmd_emulator_virtio_blk_device_create blk_value iscsi_value =
     [''nbl_rpc.py'', ''emulator_virtio_blk_device_create'', ''--name'', blk_value,
      ''--cpumask'', ''0x2'', ''--num_queues'', ''1'', ''--bdev_name'', iscsi_value,
      ''--rom_idx'', ''0'']"

definition cmd_emulator_virtio_blk_device_delete :: "string \<Rightarrow> string list" where
  "cmd_emulator_virtio_blk_device_delete blk_name =
     [''nbl_rpc.py'', ''emulator_virtio_blk_device_delete'', ''--name'', blk_name]"

definition cmd_bdev_iscsi_delete :: "string \<Rightarrow> string list" where
  "cmd_bdev_iscsi_delete iscsi_name = [''nbl_stor_rpc.py'', ''bdev_iscsi_delete'', iscsi_name]"

definition execute_rpc_create_iscsi_bdev ::
    "(string \<Rightarrow> string) \<Rightarrow> executor \<Rightarrow> string \<Rightarrow> string \<Rightarrow> world \<Rightarrow> string outcome" where
  "execute_rpc_create_iscsi_bdev repr ex iqn ip =
     seq (get_iscsi_name ip iqn) (\<lambda>iscsi_value.
       let cmd = cmd_bdev_iscsi_create iscsi_value iqn ip in
       try_except
         (seq (execute ex cmd) (\<lambda>(out, err).
            if err \<noteq> []
            then raise (RpcCommandError
                   (''Error executing bdev_iscsi_create command. Error: '' @ err)
                   \<lparr>stdout = out, stderr = err\<rparr>)
            else seq (add_device_name iscsi_value) (\<lambda>_. ret iscsi_value)))
         (\<lambda>e.
            let msg = ''Failed to execute bdev_iscsi_create command for IQN '' @ iqn
                        @ '' and IP '' @ ip @ '': '' @ str_exn repr e
            in raise (RpcCommandError msg \<lparr>stdout = [], stderr = str_exn repr e\<rparr>)))"

definition execute_rpc_emulator_virtio_blk_device_create ::
    "(string \<Rightarrow> string) \<Rightarrow> executor \<Rightarrow> string \<Rightarrow> string \<Rightarrow> string \<Rightarrow> world \<Rightarrow> string outcome" where
  "execute_rpc_emulator_virtio_blk_device_create repr ex iscsi_value ip iqn =
     seq (get_blk_name ip iqn) (\<lambda>blk_value.
       let cmd = cmd_emulator_virtio_blk_device_create blk_value iscsi_value in
       try_except
         (seq (execute ex cmd) (\<lambda>(out, err).
            if err \<noteq> []
            then raise (RpcCommandError
                   (''Error executing emulator_virtio_blk_device_create command. Error: '' @ err)
                   \<lparr>stdout = out, stderr = err\<rparr>)
            else seq (add_device_name blk_value) (\<lambda>_. ret blk_value)))
         (\<lambda>e.
            let msg = ''Failed to execute emulator_virtio_blk_device_create command for iscsi_value ''
                        @ iscsi_value @ '': '' @ str_exn repr e
            in raise (RpcCommandError msg \<lparr>stdout = [], stderr = str_exn repr e\<rparr>)))"

definition execute_rpc_emulator_virtio_blk_device_delete ::
    "(string \<Rightarrow> string) \<Rightarrow> executor \<Rightarrow> string \<Rightarrow> world \<Rightarrow> unit outcome" where
  "execute_rpc_emulator_virtio_blk_device_delete repr ex blk_name =
     (let cmd = cmd_emulator_virtio_blk_device_delete blk_name in
      try_except
        (seq (execute ex cmd) (\<lambda>(out, err).
           if err \<noteq> []
           then raise (RpcCommandError
                  (''Error executing emulator_virtio_blk_device_delete command. Error: '' @ err)
                  \<lparr>stdout = out, stderr = err\<rparr>)
           else remove_device_name blk_name))
        (\<lambda>e.
           let msg = ''Failed to execute emulator_virtio_blk_device_delete command for block device name ''
                       @ blk_name @ '': '' @ str_exn repr e
           in raise (RpcCommandError msg \<lparr>stdout = [], stderr = str_exn repr e\<rparr>)))"

definition execute_rpc_bdev_iscsi_delete ::
    "(string \<Rightarrow> string) \<Rightarrow> executor \<Rightarrow> string \<Rightarrow> world \<Rightarrow> unit outcome" where
  "execute_rpc_bdev_iscsi_delete repr ex iscsi_name =
     (let cmd = cmd_bdev_iscsi_delete iscsi_name in
      try_except
        (seq (execute ex cmd) (\<lambda>(out, err).
           if err \<noteq> []
           then raise (RpcCommandError
                  (''Error executing bdev_iscsi_delete command. Error: '' @ err)
                  \<lparr>stdout = out, stderr = err\<rparr>)
           else remove_device_name iscsi_name))
        (\<lambda>e.
           let msg = ''Failed to execute bdev_iscsi_delete command for iSCSI name ''
                       @ iscsi_name @ '': '' @ str_exn repr e
           in raise (RpcCommandError msg \<lparr>stdout = [], stderr = str_exn repr e\<rparr>)))"

section \<open>CloudDiskExtension\<close>

text \<open>The truth value Python gives to a variable that is \<^verbatim>\<open>None\<close> or a string.\<close>

fun truthy :: "string option \<Rightarrow> bool" where
  "truthy None = False"
| "truthy (Some s) = (s \<noteq> [])"

text \<open>
  \<^verbatim>\<open>connect_cloud_disk\<close>: the body of the \<^verbatim>\<open>try\<close> leaves the two local variables
  \<^verbatim>\<open>iscsi_value\<close> and \<^verbatim>\<open>blk_value\<close>, which the \<^verbatim>\<open>finally\<close> block reads; the
  \<^verbatim>\<open>except\<close> clauses turn \<^verbatim>\<open>RpcCommandError\<close> and \<^verbatim>\<open>ValueError\<close> (and so its
  subclass \<^verbatim>\<open>UnicodeEncodeError\<close>) into \<^verbatim>\<open>BadRequest\<close>; the \<^verbatim>\<open>finally\<close> block
  runs on every path and swallows every exception of the rollback.
\<close>

definition connect_cloud_disk ::
    "(string \<Rightarrow> string) \<Rightarrow> executor \<Rightarrow> string \<Rightarrow> string \<Rightarrow> world \<Rightarrow> (string \<times> string) list outcome" where
  "connect_cloud_disk repr ex iqn ip w =
     (let (iscsi_value, blk_value, r, w1) =
            (case execute_rpc_create_iscsi_bdev repr ex iqn ip w of
               (Inl e, w1) \<Rightarrow> (None, None, Inl e, w1)
             | (Inr iv, w1) \<Rightarrow>
                 (case execute_rpc_emulator_virtio_blk_device_create repr ex iv ip iqn w1 of
                    (Inl e, w2) \<Rightarrow> (Some iv, None, Inl e, w2)
                  | (Inr bv, w2) \<Rightarrow>
                      (Some iv, Some bv,
                       Inr [(''result'', ''Cloud disk connected successfully.'')], w2)));
          r' = (case r of
                  Inl (RpcCommandError m c) \<Rightarrow> Inl (BadRequest ''Cloud disk connection failed.'')
                | Inl (ValueError m) \<Rightarrow> Inl (BadRequest ''Command failed with error'')
                | Inl UnicodeEncodeError \<Rightarrow> Inl (BadRequest ''Command failed with error'')
                | _ \<Rightarrow> r);
          w2 = (case iscsi_value of
                  None \<Rightarrow> w1
                | Some iv \<Rightarrow>
                    if truthy iscsi_value \<and> \<not> truthy blk_value
                    then snd (try_except (execute_rpc_bdev_iscsi_delete repr ex iv) (\<lambda>rollback_err. ret ()) w1)
                    else w1)
      in (r', w2))"

text \<open>
  \<^verbatim>\<open>disconnect_cloud_disk\<close>. The call of \<^verbatim>\<open>print_all_devices\<close> and the
  \<^verbatim>\<open>time.sleep(10)\<close> between steps 3 and 4 change neither the set of names nor the
  commands that are run, and are left out.
\<close>

definition disconnect_cloud_disk ::
    "(string \<Rightarrow> string) \<Rightarrow> executor \<Rightarrow> string \<Rightarrow> string \<Rightarrow> world \<Rightarrow> (string \<times> string) list outcome" where
  "disconnect_cloud_disk repr ex iqn ip =
     try_except
       (seq (check_blk_name ip iqn) (\<lambda>blk_name.
        seq (execute_rpc_emulator_virtio_blk_device_delete repr ex blk_name) (\<lambda>_.
        seq (check_iscsi_name ip iqn) (\<lambda>iscsi_name.
        seq (execute_rpc_bdev_iscsi_delete repr ex iscsi_name) (\<lambda>_.
        ret [(''result'', ''Cloud disk disconnected successfully.'')])))))
       (\<lambda>e. case e of
               RpcCommandError m c \<Rightarrow> raise (BadRequest ''Cloud disk disconnection failed.'')
             | ValueError m \<Rightarrow> raise (BadRequest ''Command failed with error.'')
             | UnicodeEncodeError \<Rightarrow> raise (BadRequest ''Command failed with error.'')
             | _ \<Rightarrow> raise e)"

text \<open>
  What the four \<^verbatim>\<open>execute_rpc_*\<close> methods take for a success of the command they run:
  \<^verbatim>\<open>execute\<close> returned, and the error stream it returned is empty.
\<close>

definition command_ok :: "exec_result \<Rightarrow> bool" where
  "command_ok r =
     (case r of
        Returned out err \<Rightarrow> err = []
      | LaunchError m \<Rightarrow> False
      | ProcessExecutionError exit_code out err m \<Rightarrow> False)"

text \<open>
  The exception that reaches the \<^verbatim>\<open>except Exception as e\<close> clause of an
  \<^verbatim>\<open>execute_rpc_*\<close> method when the command \<open>what\<close> did not succeed: the exception of
  \<^verbatim>\<open>execute\<close> itself, or the \<^verbatim>\<open>RpcCommandError\<close> raised for a non-empty error stream.
\<close>

definition caught :: "string \<Rightarrow> exec_result \<Rightarrow> exn" where
  "caught what r =
     (case r of
        LaunchError m \<Rightarrow> ExecuteError m
      | ProcessExecutionError exit_code out err m \<Rightarrow> ExecuteError m
      | Returned out err \<Rightarrow>
          RpcCommandError (''Error executing '' @ what @ '' command. Error: '' @ err)
            \<lparr>stdout = out, stderr = err\<rparr>)"

section \<open>Concrete environments\<close>

text \<open>
  An environment in the manner of the stand-in tool \<^verbatim>\<open>src/nbl_rpc.py\<close>: the argument
  after the program name is the command key; a key listed in \<open>error_commands\<close> writes
  its failure to the error stream, any other key prints a status and leaves the error
  stream empty. A call with no command key cannot be started.
\<close>

definition tool :: "string list \<Rightarrow> executor" where
  "tool error_commands cmd =
     (case cmd of
        prog # cmd_key # args \<Rightarrow>
          if cmd_key \<in> set error_commands
          then Returned (''Executing: '' @ cmd_key) (cmd_key @ '' command failed as configured'')
          else Returned (cmd_key @ '' command executed successfully'') []
      | _ \<Rightarrow> LaunchError ''missing command key'')"

text \<open>An environment in which no command can be started.\<close>

definition unavailable :: executor where
  "unavailable cmd = LaunchError ''[Errno 2] No such file or directory''"

text \<open>
  An environment in which every command is started, writes nothing to its error stream and
  ends with exit status 1, which \<^verbatim>\<open>execute\<close> answers with its
  \<^verbatim>\<open>ProcessExecutionError\<close>.
\<close>

definition exits_with_1 :: executor where
  "exits_with_1 cmd =
     ProcessExecutionError 1 [] [] ''Unexpected error while running command.''"

text \<open>
  Python's \<^verbatim>\<open>repr\<close> of a \<^verbatim>\<open>str\<close> made of ASCII characters: single quotes, unless the
  string has a single quote and no double quote; the quote, the backslash and the control
  characters escaped. It stands for the parameter \<open>repr\<close> where a theorem is run on
  ASCII text; on other text it is not meant to be Python's \<^verbatim>\<open>repr\<close>, which consults
  the Unicode database.
\<close>

definition hex2 :: "nat \<Rightarrow> string" where
  "hex2 n = [hex_digit (n div 16), hex_digit (n mod 16)]"

definition ascii_repr_char :: "char \<Rightarrow> char \<Rightarrow> string" where
  "ascii_repr_char q c =
     (if c = q \<or> c = CHR 0x5C then [CHR 0x5C, c]
      else if c = CHR 0x09 then [CHR 0x5C, CHR ''t'']
      else if c = CHR 0x0A then [CHR 0x5C, CHR ''n'']
      else if c = CHR 0x0D then [CHR 0x5C, CHR ''r'']
      else if (of_char c :: nat) < 32 \<or> (of_char c :: nat) = 127
        then [CHR 0x5C, CHR ''x''] @ hex2 (of_char c)
      else [c])"

definition ascii_repr :: "string \<Rightarrow> string" where
  "ascii_repr s =
     (let q = (if CHR 0x27 \<in> set s \<and> CHR 0x22 \<notin> set s then CHR 0x22 else CHR 0x27)
      in [q] @ concat (map (ascii_repr_char q) s) @ [q])"

text \<open>
  The \<^verbatim>\<open>str\<close> that \<^verbatim>\<open>json.loads\<close> gives for \<^verbatim>\<open>"disk\ud800"\<close>: four ASCII
  characters and the surrogate U+D800.
\<close>

definition disk_d800 :: string where
  "disk_d800 = ''disk'' @ [CHR 0xED, CHR 0xA0, CHR 0x80]"

text \<open>The agent at start-up with no \<^verbatim>\<open>devices.json\<close>: no names, no command run yet.\<close>

definition fresh :: world where
  "fresh = \<lparr>created_devices = {}, executed = []\<rparr>"

section \<open>Facts about the digest and the derived names\<close>

lemma length_le_bytes32: "length (le_bytes32 w) = 4"
  by (simp add: le_bytes32_def)

lemma length_md5_digest: "length (md5_digest m) = 16"
  by (simp add: md5_digest_def length_le_bytes32 split: prod.splits)

lemma length_hexdigest: "length (hexdigest bs) = 2 * length bs"
  by (induction bs) (simp_all add: hexdigest_def hex_byte_def)

lemma length_md5_hexdigest: "length (md5_hexdigest m) = 32"
  by (simp add: md5_hexdigest_def length_hexdigest length_md5_digest)

lemma hex_digit_in: "hex_digit n \<in> set ''0123456789abcdef''"
  unfolding hex_digit_def by (rule nth_mem) simp

lemma set_hexdigest: "set (hexdigest bs) \<subseteq> set ''0123456789abcdef''"
  unfolding hexdigest_def hex_byte_def using hex_digit_in by auto

lemma set_md5_hexdigest: "set (md5_hexdigest m) \<subseteq> set ''0123456789abcdef''"
  unfolding md5_hexdigest_def by (rule set_hexdigest)

lemma find_unique_name_eq:
  "find_unique_name prefix ip iqn w =
     (if encodable ip iqn then (Inr (unique_name prefix ip iqn), w)
      else (Inl UnicodeEncodeError, w))"
  by (simp add: find_unique_name_def encode_def encodable_def unique_name_def)

lemma generate_unique_name_eq:
  "generate_unique_name prefix ip iqn w =
     (if \<not> encodable ip iqn then (Inl UnicodeEncodeError, w)
      else if unique_name prefix ip iqn \<in> created_devices w
      then (Inl (ValueError (''Device name '' @ [CHR 0x27] @ unique_name prefix ip iqn @ [CHR 0x27]
                               @ '' already exists.'')), w)
      else (Inr (unique_name prefix ip iqn), w))"
  by (simp add: generate_unique_name_def encode_def encodable_def unique_name_def)

lemma iscsi_blk_distinct: "unique_name ''iscsi'' ip iqn \<noteq> unique_name ''blk'' ip' iqn'"
  by (simp add: unique_name_def)

lemma blk_iscsi_distinct: "unique_name ''blk'' ip iqn \<noteq> unique_name ''iscsi'' ip' iqn'"
  by (simp add: unique_name_def)

lemma iscsi_name_nonempty: "unique_name ''iscsi'' ip iqn \<noteq> []"
  by (simp add: unique_name_def)

lemma blk_name_nonempty: "unique_name ''blk'' ip iqn \<noteq> []"
  by (simp add: unique_name_def)

section \<open>What each method computes\<close>

lemma execute_eq:
  "execute ex cmd w =
     (case ex cmd of
        Returned out err \<Rightarrow> (Inr (out, err), w\<lparr>executed := executed w @ [cmd]\<rparr>)
      | LaunchError m \<Rightarrow> (Inl (ExecuteError m), w\<lparr>executed := executed w @ [cmd]\<rparr>)
      | ProcessExecutionError exit_code out err m \<Rightarrow>
          (Inl (ExecuteError m), w\<lparr>executed := executed w @ [cmd]\<rparr>))"
  by (simp add: execute_def Let_def)

lemma create_iscsi_eq:
  "execute_rpc_create_iscsi_bdev repr ex iqn ip w =
     (let n = unique_name ''iscsi'' ip iqn; cmd = cmd_bdev_iscsi_create n iqn ip in
      if \<not> encodable ip iqn then (Inl UnicodeEncodeError, w)
      else if n \<in> created_devices w
      then (Inl (ValueError (''Device name '' @ [CHR 0x27] @ n @ [CHR 0x27] @ '' already exists.'')), w)
      else if command_ok (ex cmd)
      then (Inr n, w\<lparr>executed := executed w @ [cmd],
                      created_devices := insert n (created_devices w)\<rparr>)
      else (let e = caught ''bdev_iscsi_create'' (ex cmd) in
            (Inl (RpcCommandError
                   (''Failed to execute bdev_iscsi_create command for IQN '' @ iqn
                      @ '' and IP '' @ ip @ '': '' @ str_exn repr e)
                   \<lparr>stdout = [], stderr = str_exn repr e\<rparr>),
             w\<lparr>executed := executed w @ [cmd]\<rparr>)))"
  by (cases "ex (cmd_bdev_iscsi_create (unique_name ''iscsi'' ip iqn) iqn ip)")
     (simp_all add: execute_rpc_create_iscsi_bdev_def get_iscsi_name_def generate_unique_name_eq
       seq_def try_except_def raise_def ret_def execute_eq add_device_name_def command_ok_def
       caught_def Let_def)

lemma create_blk_eq:
  "execute_rpc_emulator_virtio_blk_device_create repr ex iscsi_value ip iqn w =
     (let n = unique_name ''blk'' ip iqn; cmd = cmd_emulator_virtio_blk_device_create n iscsi_value in
      if \<not> encodable ip iqn then (Inl UnicodeEncodeError, w)
      else if n \<in> created_devices w
      then (Inl (ValueError (''Device name '' @ [CHR 0x27] @ n @ [CHR 0x27] @ '' already exists.'')), w)
      else if command_ok (ex cmd)
      then (Inr n, w\<lparr>executed := executed w @ [cmd],
                      created_devices := insert n (created_devices w)\<rparr>)
      else (let e = caught ''emulator_virtio_blk_device_create'' (ex cmd) in
            (Inl (RpcCommandError
                   (''Failed to execute emulator_virtio_blk_device_create command for iscsi_value ''
                      @ iscsi_value @ '': '' @ str_exn repr e)
                   \<lparr>stdout = [], stderr = str_exn repr e\<rparr>),
             w\<lparr>executed := executed w @ [cmd]\<rparr>)))"
  by (cases "ex (cmd_emulator_virtio_blk_device_create (unique_name ''blk'' ip iqn) iscsi_value)")
     (simp_all add: execute_rpc_emulator_virtio_blk_device_create_def get_blk_name_def
       generate_unique_name_eq seq_def try_except_def raise_def ret_def execute_eq
       add_device_name_def command_ok_def caught_def Let_def)

lemma delete_blk_eq:
  "execute_rpc_emulator_virtio_blk_device_delete repr ex blk_name w =
     (let cmd = cmd_emulator_virtio_blk_device_delete blk_name in
      if command_ok (ex cmd)
      then (Inr (), w\<lparr>executed := executed w @ [cmd],
                       created_devices := created_devices w - {blk_name}\<rparr>)
      else (let e = caught ''emulator_virtio_blk_device_delete'' (ex cmd) in
            (Inl (RpcCommandError
                   (''Failed to execute emulator_virtio_blk_device_delete command for block device name ''
                      @ blk_name @ '': '' @ str_exn repr e)
                   \<lparr>stdout = [], stderr = str_exn repr e\<rparr>),
             w\<lparr>executed := executed w @ [cmd]\<rparr>)))"
  by (cases "ex (cmd_emulator_virtio_blk_device_delete blk_name)")
     (simp_all add: execute_rpc_emulator_virtio_blk_device_delete_def seq_def try_except_def
       raise_def execute_eq remove_device_name_def command_ok_def caught_def Let_def)

lemma delete_iscsi_eq:
  "execute_rpc_bdev_iscsi_delete repr ex iscsi_name w =
     (let cmd = cmd_bdev_iscsi_delete iscsi_name in
      if command_ok (ex cmd)
      then (Inr (), w\<lparr>executed := executed w @ [cmd],
                       created_devices := created_devices w - {iscsi_name}\<rparr>)
      else (let e = caught ''bdev_iscsi_delete'' (ex cmd) in
            (Inl (RpcCommandError
                   (''Failed to execute bdev_iscsi_delete command for iSCSI name ''
                      @ iscsi_name @ '': '' @ str_exn repr e)
                   \<lparr>stdout = [], stderr = str_exn repr e\<rparr>),
             w\<lparr>executed := executed w @ [cmd]\<rparr>)))"
  by (cases "ex (cmd_bdev_iscsi_delete iscsi_name)")
     (simp_all add: execute_rpc_bdev_iscsi_delete_def seq_def try_except_def
       raise_def execute_eq remove_device_name_def command_ok_def caught_def Let_def)

lemma rollback_eq:
  "snd (try_except (execute_rpc_bdev_iscsi_delete repr ex iv) (\<lambda>rollback_err. ret ()) w) =
     (if command_ok (ex (cmd_bdev_iscsi_delete iv))
      then w\<lparr>executed := executed w @ [cmd_bdev_iscsi_delete iv],
              created_devices := created_devices w - {iv}\<rparr>
      else w\<lparr>executed := executed w @ [cmd_bdev_iscsi_delete iv]\<rparr>)"
  by (simp add: try_except_def delete_iscsi_eq ret_def Let_def)

lemma connect_eq:
  "connect_cloud_disk repr ex iqn ip w =
     (let n = unique_name ''iscsi'' ip iqn; b = unique_name ''blk'' ip iqn;
          c1 = cmd_bdev_iscsi_create n iqn ip;
          c2 = cmd_emulator_virtio_blk_device_create b n;
          c3 = cmd_bdev_iscsi_delete n;
          s = created_devices w
      in if \<not> encodable ip iqn then (Inl (BadRequest ''Command failed with error''), w)
         else if n \<in> s then (Inl (BadRequest ''Command failed with error''), w)
         else if \<not> command_ok (ex c1)
         then (Inl (BadRequest ''Cloud disk connection failed.''),
               w\<lparr>executed := executed w @ [c1]\<rparr>)
         else if b \<in> s
         then (Inl (BadRequest ''Command failed with error''),
               w\<lparr>executed := executed w @ [c1, c3],
                  created_devices := (if command_ok (ex c3) then s else insert n s)\<rparr>)
         else if \<not> command_ok (ex c2)
         then (Inl (BadRequest ''Cloud disk connection failed.''),
               w\<lparr>executed := executed w @ [c1, c2, c3],
                  created_devices := (if command_ok (ex c3) then s else insert n s)\<rparr>)
         else (Inr [(''result'', ''Cloud disk connected successfully.'')],
               w\<lparr>executed := executed w @ [c1, c2],
                  created_devices := insert b (insert n s)\<rparr>))"
  by (simp add: connect_cloud_disk_def create_iscsi_eq create_blk_eq rollback_eq Let_def
        iscsi_name_nonempty blk_name_nonempty blk_iscsi_distinct)

lemma disconnect_eq:
  "disconnect_cloud_disk repr ex iqn ip w =
     (let n = unique_name ''iscsi'' ip iqn; b = unique_name ''blk'' ip iqn;
          c1 = cmd_emulator_virtio_blk_device_delete b;
          c2 = cmd_bdev_iscsi_delete n;
          s = created_devices w
      in if \<not> encodable ip iqn then (Inl (BadRequest ''Command failed with error.''), w)
         else if b \<notin> s then (Inl (BadRequest ''Command failed with error.''), w)
         else if \<not> command_ok (ex c1)
         then (Inl (BadRequest ''Cloud disk disconnection failed.''),
               w\<lparr>executed := executed w @ [c1]\<rparr>)
         else if n \<notin> s
         then (Inl (BadRequest ''Command failed with error.''),
               w\<lparr>executed := executed w @ [c1], created_devices := s - {b}\<rparr>)
         else if \<not> command_ok (ex c2)
         then (Inl (BadRequest ''Cloud disk disconnection failed.''),
               w\<lparr>executed := executed w @ [c1, c2], created_devices := s - {b}\<rparr>)
         else (Inr [(''result'', ''Cloud disk disconnected successfully.'')],
               w\<lparr>executed := executed w @ [c1, c2], created_devices := s - {b} - {n}\<rparr>))"
  by (simp add: disconnect_cloud_disk_def seq_def try_except_def check_blk_name_def
        check_iscsi_name_def find_unique_name_eq delete_blk_eq delete_iscsi_eq raise_def ret_def
        Let_def iscsi_blk_distinct)

lemma isl_delete_iscsi:
  "isl (fst (execute_rpc_bdev_iscsi_delete repr ex n w))
     = (\<not> command_ok (ex (cmd_bdev_iscsi_delete n)))"
  by (simp add: delete_iscsi_eq Let_def)

section \<open>How a command's outcome is classified\<close>

lemma command_ok_simps:
  "command_ok (Returned out err) = (err = [])"
  "command_ok (LaunchError m) = False"
  "command_ok (ProcessExecutionError exit_code out err m) = False"
  by (simp_all add: command_ok_def)

lemma command_ok_iff: "command_ok r \<longleftrightarrow> (\<exists>out. r = Returned out [])"
  by (cases r) (simp_all add: command_ok_def)

lemma str_caught_simps:
  "str_exn repr (caught what (LaunchError m)) = m"
  "str_exn repr (caught what (ProcessExecutionError exit_code out err m)) = m"
  "str_exn repr (caught what (Returned out err)) =
     ''Error executing '' @ what @ '' command. Error: '' @ err @ ''. Cmd Result: ''
       @ ''{'stdout': '' @ repr out @ '', 'stderr': '' @ repr err @ ''}''"
  by (simp_all add: caught_def repr_cmd_result_def)

lemma find_Inr_iff:
  "fst (find_unique_name prefix ip iqn w) = Inr n
     \<longleftrightarrow> encodable ip iqn \<and> n = unique_name prefix ip iqn"
  by (auto simp add: find_unique_name_eq)

lemma create_iscsi_classified:
  "fst (find_unique_name ''iscsi'' ip iqn w) = Inr n \<Longrightarrow> n \<notin> created_devices w \<Longrightarrow>
   fst (execute_rpc_create_iscsi_bdev repr ex iqn ip w) =
     (case ex (cmd_bdev_iscsi_create n iqn ip) of
        Returned out err \<Rightarrow>
          if err = [] then Inr n
          else let t = ''Error executing bdev_iscsi_create command. Error: '' @ err
                         @ ''. Cmd Result: '' @ ''{'stdout': '' @ repr out
                         @ '', 'stderr': '' @ repr err @ ''}''
               in Inl (RpcCommandError
                        (''Failed to execute bdev_iscsi_create command for IQN '' @ iqn
                           @ '' and IP '' @ ip @ '': '' @ t)
                        \<lparr>stdout = [], stderr = t\<rparr>)
      | LaunchError m \<Rightarrow>
          Inl (RpcCommandError
                (''Failed to execute bdev_iscsi_create command for IQN '' @ iqn
                   @ '' and IP '' @ ip @ '': '' @ m)
                \<lparr>stdout = [], stderr = m\<rparr>)
      | ProcessExecutionError exit_code out err m \<Rightarrow>
          Inl (RpcCommandError
                (''Failed to execute bdev_iscsi_create command for IQN '' @ iqn
                   @ '' and IP '' @ ip @ '': '' @ m)
                \<lparr>stdout = [], stderr = m\<rparr>))"
  by (cases "ex (cmd_bdev_iscsi_create n iqn ip)")
     (simp_all add: find_Inr_iff create_iscsi_eq Let_def command_ok_simps str_caught_simps)

lemma create_blk_classified:
  "fst (find_unique_name ''blk'' ip iqn w) = Inr b \<Longrightarrow> b \<notin> created_devices w \<Longrightarrow>
   fst (execute_rpc_emulator_virtio_blk_device_create repr ex iscsi_value ip iqn w) =
     (case ex (cmd_emulator_virtio_blk_device_create b iscsi_value) of
        Returned out err \<Rightarrow>
          if err = [] then Inr b
          else let t = ''Error executing emulator_virtio_blk_device_create command. Error: '' @ err
                         @ ''. Cmd Result: '' @ ''{'stdout': '' @ repr out
                         @ '', 'stderr': '' @ repr err @ ''}''
               in Inl (RpcCommandError
                        (''Failed to execute emulator_virtio_blk_device_create command for iscsi_value ''
                           @ iscsi_value @ '': '' @ t)
                        \<lparr>stdout = [], stderr = t\<rparr>)
      | LaunchError m \<Rightarrow>
          Inl (RpcCommandError
                (''Failed to execute emulator_virtio_blk_device_create command for iscsi_value ''
                   @ iscsi_value @ '': '' @ m)
                \<lparr>stdout = [], stderr = m\<rparr>)
      | ProcessExecutionError exit_code out err m \<Rightarrow>
          Inl (RpcCommandError
                (''Failed to execute emulator_virtio_blk_device_create command for iscsi_value ''
                   @ iscsi_value @ '': '' @ m)
                \<lparr>stdout = [], stderr = m\<rparr>))"
  by (cases "ex (cmd_emulator_virtio_blk_device_create b iscsi_value)")
     (simp_all add: find_Inr_iff create_blk_eq Let_def command_ok_simps str_caught_simps)

lemma delete_blk_classified:
  "fst (execute_rpc_emulator_virtio_blk_device_delete repr ex blk_name w) =
     (case ex (cmd_emulator_virtio_blk_device_delete blk_name) of
        Returned out err \<Rightarrow>
          if err = [] then Inr ()
          else let t = ''Error executing emulator_virtio_blk_device_delete command. Error: '' @ err
                         @ ''. Cmd Result: '' @ ''{'stdout': '' @ repr out
                         @ '', 'stderr': '' @ repr err @ ''}''
               in Inl (RpcCommandError
                        (''Failed to execute emulator_virtio_blk_device_delete command for block device name ''
                           @ blk_name @ '': '' @ t)
                        \<lparr>stdout = [], stderr = t\<rparr>)
      | LaunchError m \<Rightarrow>
          Inl (RpcCommandError
                (''Failed to execute emulator_virtio_blk_device_delete command for block device name ''
                   @ blk_name @ '': '' @ m)
                \<lparr>stdout = [], stderr = m\<rparr>)
      | ProcessExecutionError exit_code out err m \<Rightarrow>
          Inl (RpcCommandError
                (''Failed to execute emulator_virtio_blk_device_delete command for block device name ''
                   @ blk_name @ '': '' @ m)
                \<lparr>stdout = [], stderr = m\<rparr>))"
  by (cases "ex (cmd_emulator_virtio_blk_device_delete blk_name)")
     (simp_all add: delete_blk_eq Let_def command_ok_simps str_caught_simps)

lemma delete_iscsi_classified:
  "fst (execute_rpc_bdev_iscsi_delete repr ex iscsi_name w) =
     (case ex (cmd_bdev_iscsi_delete iscsi_name) of
        Returned out err \<Rightarrow>
          if err = [] then Inr ()
          else let t = ''Error executing bdev_iscsi_delete command. Error: '' @ err
                         @ ''. Cmd Result: '' @ ''{'stdout': '' @ repr out
                         @ '', 'stderr': '' @ repr err @ ''}''
               in Inl (RpcCommandError
                        (''Failed to execute bdev_iscsi_delete command for iSCSI name ''
                           @ iscsi_name @ '': '' @ t)
                        \<lparr>stdout = [], stderr = t\<rparr>)
      | LaunchError m \<Rightarrow>
          Inl (RpcCommandError
                (''Failed to execute bdev_iscsi_delete command for iSCSI name ''
                   @ iscsi_name @ '': '' @ m)
                \<lparr>stdout = [], stderr = m\<rparr>)
      | ProcessExecutionError exit_code out err m \<Rightarrow>
          Inl (RpcCommandError
                (''Failed to execute bdev_iscsi_delete command for iSCSI name ''
                   @ iscsi_name @ '': '' @ m)
                \<lparr>stdout = [], stderr = m\<rparr>))"
  by (cases "ex (cmd_bdev_iscsi_delete iscsi_name)")
     (simp_all add: delete_iscsi_eq Let_def command_ok_simps str_caught_simps)

section \<open>The concrete environments, evaluated\<close>

lemma tool_simps:
  "tool errs (cmd_bdev_iscsi_create n iqn ip) =
     (if ''bdev_iscsi_create'' \<in> set errs
      then Returned ''Executing: bdev_iscsi_create'' ''bdev_iscsi_create command failed as configured''
      else Returned ''bdev_iscsi_create command executed successfully'' [])"
  "tool errs (cmd_emulator_virtio_blk_device_create b n) =
     (if ''emulator_virtio_blk_device_create'' \<in> set errs
      then Returned ''Executing: emulator_virtio_blk_device_create'' ''emulator_virtio_blk_device_create command failed as configured''
      else Returned ''emulator_virtio_blk_device_create command executed successfully'' [])"
  "tool errs (cmd_emulator_virtio_blk_device_delete b) =
     (if ''emulator_virtio_blk_device_delete'' \<in> set errs
      then Returned ''Executing: emulator_virtio_blk_device_delete'' ''emulator_virtio_blk_device_delete command failed as configured''
      else Returned ''emulator_virtio_blk_device_delete command executed successfully'' [])"
  "tool errs (cmd_bdev_iscsi_delete n) =
     (if ''bdev_iscsi_delete'' \<in> set errs
      then Returned ''Executing: bdev_iscsi_delete'' ''bdev_iscsi_delete command failed as configured''
      else Returned ''bdev_iscsi_delete command executed successfully'' [])"
  by (simp_all add: tool_def cmd_bdev_iscsi_create_def cmd_emulator_virtio_blk_device_create_def
        cmd_emulator_virtio_blk_device_delete_def cmd_bdev_iscsi_delete_def)

lemma ascii_repr_plain:
  "ascii_repr ''Executing: bdev_iscsi_delete''
     = [CHR 0x27] @ ''Executing: bdev_iscsi_delete'' @ [CHR 0x27]"
  "ascii_repr ''bdev_iscsi_delete command failed as configured''
     = [CHR 0x27] @ ''bdev_iscsi_delete command failed as configured'' @ [CHR 0x27]"
  by (simp_all add: ascii_repr_def ascii_repr_char_def Let_def)

lemma encodable_disk1: "encodable ''10.0.0.5'' ''iqn.2016-06.io.test:disk1''"
  by (simp add: encodable_def)

lemma not_encodable_disk_d800: "\<not> encodable ''10.0.0.5'' disk_d800"
  by (simp add: encodable_def disk_d800_def)

section \<open>The digest on known inputs\<close>

text \<open>The test suite of RFC 1321 gives the digest of \<open>abc\<close>.\<close>

lemma md5_abc: "md5_hexdigest (utf8_bytes ''abc'') = ''900150983cd24fb0d6963f7d28e17f72''"
  by code_simp

lemma md5_disk1:
  "md5_hexdigest (utf8_bytes ''10.0.0.5_iqn.2016-06.io.test:disk1'')
     = ''a7165833aae6110ffe2e76196b7837f5''"
  by code_simp

lemma iscsi_disk1:
  "unique_name ''iscsi'' ''10.0.0.5'' ''iqn.2016-06.io.test:disk1'' = ''iscsia7165833''"
  using md5_disk1 by (simp add: unique_name_def)

lemma blk_disk1:
  "unique_name ''blk'' ''10.0.0.5'' ''iqn.2016-06.io.test:disk1'' = ''blka7165833''"
  using md5_disk1 by (simp add: unique_name_def)

lemma md5_a_b_c: "md5_hexdigest (utf8_bytes ''a_b_c'') = ''8d28cddc274233853a82eae1c6c7f0b3''"
  by code_simp

section \<open>The name registry\<close>

text \<open>
  C3, as the code has it. For every prefix, address and qualified name,
  \<^verbatim>\<open>_find_unique_name\<close> formats \<^verbatim>\<open>"<address>_<qualifiedName>"\<close> and encodes it. When
  the string holds no surrogate, the method returns the prefix followed by the first 8
  characters of the MD5 hex digest of the encoded string; a digest always has 32 characters,
  all of them hexadecimal digits, so exactly 8 are kept. When the string holds a surrogate,
  the method raises \<^verbatim>\<open>UnicodeEncodeError\<close> and returns no name. Either way it leaves the
  state as it is and its result does not depend on the state, so two calls with the same
  inputs give the same result; and a name derived with the prefix \<open>iscsi\<close> is never
  equal to a name derived with the prefix \<open>blk\<close>, whatever the other inputs are.
\<close>

theorem find_unique_name_derivation:
  "(\<not> has_surrogate (ip @ ''_'' @ iqn) \<longrightarrow>
      find_unique_name prefix ip iqn w
        = (Inr (prefix @ take 8 (md5_hexdigest (utf8_bytes (ip @ ''_'' @ iqn)))), w))
   \<and> (has_surrogate (ip @ ''_'' @ iqn) \<longrightarrow>
      find_unique_name prefix ip iqn w = (Inl UnicodeEncodeError, w))
   \<and> length (md5_hexdigest m) = 32
   \<and> length (take 8 (md5_hexdigest m)) = 8
   \<and> set (take 8 (md5_hexdigest m)) \<subseteq> set ''0123456789abcdef''
   \<and> snd (find_unique_name prefix ip iqn w) = w
   \<and> fst (find_unique_name prefix ip iqn w) = fst (find_unique_name prefix ip iqn w')
   \<and> (fst (find_unique_name ''iscsi'' ip iqn w) = Inr n
        \<and> fst (find_unique_name ''blk'' ip' iqn' w') = Inr b \<longrightarrow> n \<noteq> b)"
proof -
  have "set (take 8 (md5_hexdigest m)) \<subseteq> set (md5_hexdigest m)"
    by (rule set_take_subset)
  then have hex: "set (take 8 (md5_hexdigest m)) \<subseteq> set ''0123456789abcdef''"
    using set_md5_hexdigest by (rule subset_trans)
  have eq: "\<And>p a b v. find_unique_name p a b v =
              (if has_surrogate (a @ ''_'' @ b) then (Inl UnicodeEncodeError, v)
               else (Inr (p @ take 8 (md5_hexdigest (utf8_bytes (a @ ''_'' @ b)))), v))"
    by (simp add: find_unique_name_def encode_def)
  have ne: "fst (find_unique_name ''iscsi'' ip iqn w) = Inr n
        \<and> fst (find_unique_name ''blk'' ip' iqn' w') = Inr b \<longrightarrow> n \<noteq> b"
    by (auto simp add: eq split: if_splits)
  show ?thesis
    using hex ne by (simp add: eq length_md5_hexdigest)
qed

theorem find_unique_name_derivation_witness:
  "find_unique_name ''iscsi'' ''10.0.0.5'' ''iqn.2016-06.io.test:disk1'' fresh
     = (Inr ''iscsia7165833'', fresh)
   \<and> find_unique_name ''blk'' ''10.0.0.5'' disk_d800 fresh = (Inl UnicodeEncodeError, fresh)"
proof -
  have 1: "find_unique_name ''iscsi'' ''10.0.0.5'' ''iqn.2016-06.io.test:disk1'' fresh
             = (Inr ''iscsia7165833'', fresh)"
    using find_unique_name_derivation
            [where prefix = "''iscsi''" and ip = "''10.0.0.5''"
               and iqn = "''iqn.2016-06.io.test:disk1''" and w = fresh, THEN conjunct1]
          md5_disk1
    by simp
  have 2: "find_unique_name ''blk'' ''10.0.0.5'' disk_d800 fresh = (Inl UnicodeEncodeError, fresh)"
    using find_unique_name_derivation
            [where prefix = "''blk''" and ip = "''10.0.0.5''" and iqn = disk_d800 and w = fresh,
             THEN conjunct2, THEN conjunct1]
    by (simp add: disk_d800_def)
  show ?thesis using 1 2 by (intro conjI)
qed

text \<open>
  The method does not return a name for every input: for the address \<open>10.0.0.5\<close> and
  the qualified name that \<^verbatim>\<open>json.loads\<close> gives for \<^verbatim>\<open>"disk\ud800"\<close> it raises.
\<close>

theorem find_unique_name_surrogate_counterexample:
  "has_surrogate (''10.0.0.5'' @ ''_'' @ disk_d800)
   \<and> find_unique_name ''iscsi'' ''10.0.0.5'' disk_d800 fresh = (Inl UnicodeEncodeError, fresh)"
  by (simp add: find_unique_name_def encode_def disk_d800_def)

text \<open>
  C6, as the code has it. \<^verbatim>\<open>_generate_unique_name\<close> encodes the formatted string before
  it looks at the set of names. When the string holds a surrogate it raises
  \<^verbatim>\<open>UnicodeEncodeError\<close>, whatever the set holds. Otherwise it raises if and only if the
  derived name is already in \<^verbatim>\<open>_created_devices\<close>; when it raises, it raises the
  \<^verbatim>\<open>ValueError\<close> naming the derived name, and when it returns, it returns the derived
  name. In every case it leaves the state, and so the set of names, as it was.
\<close>

theorem generate_unique_name_raises_iff:
  "(has_surrogate (ip @ ''_'' @ iqn) \<longrightarrow>
      generate_unique_name prefix ip iqn w = (Inl UnicodeEncodeError, w))
   \<and> (\<not> has_surrogate (ip @ ''_'' @ iqn) \<longrightarrow>
      (isl (fst (generate_unique_name prefix ip iqn w))
         \<longleftrightarrow> projr (fst (find_unique_name prefix ip iqn w)) \<in> created_devices w)
      \<and> (isl (fst (generate_unique_name prefix ip iqn w)) \<longrightarrow>
           fst (generate_unique_name prefix ip iqn w)
             = Inl (ValueError (''Device name '' @ [CHR 0x27]
                      @ projr (fst (find_unique_name prefix ip iqn w)) @ [CHR 0x27]
                      @ '' already exists.'')))
      \<and> (\<not> isl (fst (generate_unique_name prefix ip iqn w)) \<longrightarrow>
           fst (generate_unique_name prefix ip iqn w) = fst (find_unique_name prefix ip iqn w)))
   \<and> snd (generate_unique_name prefix ip iqn w) = w"
  by (simp add: generate_unique_name_eq find_unique_name_eq encodable_def)

theorem generate_unique_name_raises_iff_witness:
  "isl (fst (generate_unique_name ''iscsi'' ''10.0.0.5'' ''iqn.2016-06.io.test:disk1''
               (fresh\<lparr>created_devices := {''iscsia7165833''}\<rparr>)))
   \<and> fst (generate_unique_name ''blk'' ''10.0.0.5'' ''iqn.2016-06.io.test:disk1''
               (fresh\<lparr>created_devices := {''iscsia7165833''}\<rparr>)) = Inr ''blka7165833''
   \<and> snd (generate_unique_name ''iscsi'' ''10.0.0.5'' ''iqn.2016-06.io.test:disk1''
               (fresh\<lparr>created_devices := {''iscsia7165833''}\<rparr>))
       = fresh\<lparr>created_devices := {''iscsia7165833''}\<rparr>"
proof -
  let ?w = "fresh\<lparr>created_devices := {''iscsia7165833''}\<rparr>"
  have enc: "\<not> has_surrogate (''10.0.0.5'' @ ''_'' @ ''iqn.2016-06.io.test:disk1'')"
    by simp
  have f1: "fst (find_unique_name ''iscsi'' ''10.0.0.5'' ''iqn.2016-06.io.test:disk1'' ?w)
              = Inr ''iscsia7165833''"
    by (simp add: find_unique_name_eq encodable_disk1 iscsi_disk1)
  have f2: "fst (find_unique_name ''blk'' ''10.0.0.5'' ''iqn.2016-06.io.test:disk1'' ?w)
              = Inr ''blka7165833''"
    by (simp add: find_unique_name_eq encodable_disk1 blk_disk1)
  note g1 = generate_unique_name_raises_iff
              [where prefix = "''iscsi''" and ip = "''10.0.0.5''"
                 and iqn = "''iqn.2016-06.io.test:disk1''" and w = ?w]
  note g2 = generate_unique_name_raises_iff
              [where prefix = "''blk''" and ip = "''10.0.0.5''"
                 and iqn = "''iqn.2016-06.io.test:disk1''" and w = ?w]
  have 1: "isl (fst (generate_unique_name ''iscsi'' ''10.0.0.5'' ''iqn.2016-06.io.test:disk1'' ?w))"
    using g1 [THEN conjunct2, THEN conjunct1, rule_format, OF enc, THEN conjunct1] f1
    by simp
  have "\<not> isl (fst (generate_unique_name ''blk'' ''10.0.0.5'' ''iqn.2016-06.io.test:disk1'' ?w))"
    using g2 [THEN conjunct2, THEN conjunct1, rule_format, OF enc, THEN conjunct1] f2
    by simp
  then have 2: "fst (generate_unique_name ''blk'' ''10.0.0.5'' ''iqn.2016-06.io.test:disk1'' ?w)
                  = Inr ''blka7165833''"
    using g2 [THEN conjunct2, THEN conjunct1, rule_format, OF enc] f2 by simp
  have 3: "snd (generate_unique_name ''iscsi'' ''10.0.0.5'' ''iqn.2016-06.io.test:disk1'' ?w) = ?w"
    using g1 by blast
  show ?thesis using 1 2 3 by (intro conjI)
qed

text \<open>
  A failure of \<^verbatim>\<open>_generate_unique_name\<close> does not always mean that the derived name is
  recorded: with no name recorded at all, it raises for a qualified name with a surrogate.
\<close>

theorem generate_unique_name_surrogate_counterexample:
  "generate_unique_name ''iscsi'' ''10.0.0.5'' disk_d800 fresh = (Inl UnicodeEncodeError, fresh)
   \<and> created_devices fresh = {}"
  by (simp add: generate_unique_name_def encode_def disk_d800_def fresh_def)

section \<open>Detaching\<close>

text \<open>
  C5. When neither of the two names derived from an address and a qualified name is in the
  set of names, \<^verbatim>\<open>disconnect_cloud_disk\<close> fails at its first step: \<^verbatim>\<open>check_blk_name\<close>
  raises (the \<^verbatim>\<open>ValueError\<close> for the missing block device name, when that name can be
  derived), the caller gets \<^verbatim>\<open>BadRequest\<close>, no command is run and the set of names is
  unchanged.
\<close>

theorem disconnect_unknown_identity:
  assumes "\<forall>n. fst (find_unique_name ''iscsi'' ip iqn w) = Inr n \<longrightarrow> n \<notin> created_devices w"
      and "\<forall>n. fst (find_unique_name ''blk'' ip iqn w) = Inr n \<longrightarrow> n \<notin> created_devices w"
  shows "isl (fst (check_blk_name ip iqn w))
         \<and> snd (check_blk_name ip iqn w) = w
         \<and> (\<forall>n. fst (find_unique_name ''blk'' ip iqn w) = Inr n \<longrightarrow>
               check_blk_name ip iqn w
                 = (Inl (ValueError (''Block device name '' @ [CHR 0x27] @ n @ [CHR 0x27]
                           @ '' does not exist.'')), w))
         \<and> disconnect_cloud_disk repr ex iqn ip w
             = (Inl (BadRequest ''Command failed with error.''), w)
         \<and> executed (snd (disconnect_cloud_disk repr ex iqn ip w)) = executed w
         \<and> created_devices (snd (disconnect_cloud_disk repr ex iqn ip w)) = created_devices w"
  using assms by (simp add: check_blk_name_def disconnect_eq find_unique_name_eq Let_def)

theorem disconnect_unknown_identity_witness:
  "check_blk_name ''10.0.0.5'' ''iqn.2016-06.io.test:disk1'' fresh
     = (Inl (ValueError ''Block device name 'blka7165833' does not exist.''), fresh)
   \<and> disconnect_cloud_disk ascii_repr (tool []) ''iqn.2016-06.io.test:disk1'' ''10.0.0.5'' fresh
     = (Inl (BadRequest ''Command failed with error.''), fresh)"
proof -
  have h1: "\<forall>n. fst (find_unique_name ''iscsi'' ''10.0.0.5'' ''iqn.2016-06.io.test:disk1'' fresh) = Inr n
              \<longrightarrow> n \<notin> created_devices fresh"
    by (simp add: fresh_def)
  have h2: "\<forall>n. fst (find_unique_name ''blk'' ''10.0.0.5'' ''iqn.2016-06.io.test:disk1'' fresh) = Inr n
              \<longrightarrow> n \<notin> created_devices fresh"
    by (simp add: fresh_def)
  have f: "fst (find_unique_name ''blk'' ''10.0.0.5'' ''iqn.2016-06.io.test:disk1'' fresh)
             = Inr ''blka7165833''"
    by (simp add: find_unique_name_eq encodable_disk1 blk_disk1)
  note t = disconnect_unknown_identity [OF h1 h2, where repr = ascii_repr and ex = "tool []"]
  have 1: "check_blk_name ''10.0.0.5'' ''iqn.2016-06.io.test:disk1'' fresh
     = (Inl (ValueError ''Block device name 'blka7165833' does not exist.''), fresh)"
    using t [THEN conjunct2, THEN conjunct2, THEN conjunct1, rule_format, OF f] by simp
  have 2: "disconnect_cloud_disk ascii_repr (tool []) ''iqn.2016-06.io.test:disk1'' ''10.0.0.5'' fresh
     = (Inl (BadRequest ''Command failed with error.''), fresh)"
    using t by blast
  show ?thesis using 1 2 by (intro conjI)
qed

section \<open>Attaching\<close>

text \<open>
  C4. When \<^verbatim>\<open>connect_cloud_disk\<close> has succeeded for an address and a qualified name and
  is called again for the same pair with no disconnect in between, the second call fails at
  its first step, whatever the environment does: \<^verbatim>\<open>execute_rpc_create_iscsi_bdev\<close> raises
  the \<^verbatim>\<open>ValueError\<close> of \<^verbatim>\<open>_generate_unique_name\<close> for the iscsi name, the caller gets
  \<^verbatim>\<open>BadRequest\<close>, no command is run, and the set of names stays what the first call
  left: the names it had before together with the one iscsi name and the one blk name of
  the pair, two different names that were not there before.
\<close>

theorem connect_twice_collides:
  assumes "connect_cloud_disk repr ex1 iqn ip w = (Inr ok, w1)"
  shows "execute_rpc_create_iscsi_bdev repr ex2 iqn ip w1
           = (Inl (ValueError (''Device name '' @ [CHR 0x27]
                     @ projr (fst (find_unique_name ''iscsi'' ip iqn w1)) @ [CHR 0x27]
                     @ '' already exists.'')), w1)
         \<and> connect_cloud_disk repr ex2 iqn ip w1 = (Inl (BadRequest ''Command failed with error''), w1)
         \<and> created_devices w1
             = created_devices w \<union> {projr (fst (find_unique_name ''iscsi'' ip iqn w)),
                                     projr (fst (find_unique_name ''blk'' ip iqn w))}
         \<and> projr (fst (find_unique_name ''iscsi'' ip iqn w)) \<notin> created_devices w
         \<and> projr (fst (find_unique_name ''blk'' ip iqn w)) \<notin> created_devices w
         \<and> projr (fst (find_unique_name ''iscsi'' ip iqn w))
             \<noteq> projr (fst (find_unique_name ''blk'' ip iqn w))"
proof -
  let ?n = "unique_name ''iscsi'' ip iqn" and ?b = "unique_name ''blk'' ip iqn"
  from assms have w1: "w1 = w\<lparr>executed := executed w
            @ [cmd_bdev_iscsi_create ?n iqn ip, cmd_emulator_virtio_blk_device_create ?b ?n],
          created_devices := insert ?b (insert ?n (created_devices w))\<rparr>"
    and free: "?n \<notin> created_devices w" "?b \<notin> created_devices w"
    and enc: "encodable ip iqn"
    by (auto simp add: connect_eq Let_def split: if_splits)
  show ?thesis
    using free enc by (auto simp add: w1 connect_eq create_iscsi_eq find_unique_name_eq Let_def
                         iscsi_blk_distinct)
qed

theorem connect_twice_collides_witness:
  "connect_cloud_disk ascii_repr (tool []) ''iqn.2016-06.io.test:disk1'' ''10.0.0.5'' fresh
     = (Inr [(''result'', ''Cloud disk connected successfully.'')],
        snd (connect_cloud_disk ascii_repr (tool []) ''iqn.2016-06.io.test:disk1'' ''10.0.0.5'' fresh))
   \<and> connect_cloud_disk ascii_repr (tool []) ''iqn.2016-06.io.test:disk1'' ''10.0.0.5''
        (snd (connect_cloud_disk ascii_repr (tool []) ''iqn.2016-06.io.test:disk1'' ''10.0.0.5'' fresh))
     = (Inl (BadRequest ''Command failed with error''),
        snd (connect_cloud_disk ascii_repr (tool []) ''iqn.2016-06.io.test:disk1'' ''10.0.0.5'' fresh))
   \<and> created_devices
        (snd (connect_cloud_disk ascii_repr (tool []) ''iqn.2016-06.io.test:disk1'' ''10.0.0.5'' fresh))
     = {''iscsia7165833'', ''blka7165833''}"
proof -
  let ?c = "connect_cloud_disk ascii_repr (tool []) ''iqn.2016-06.io.test:disk1'' ''10.0.0.5'' fresh"
  have h: "?c = (Inr [(''result'', ''Cloud disk connected successfully.'')], snd ?c)"
    by (simp add: connect_eq Let_def tool_simps command_ok_simps encodable_disk1 fresh_def)
  show ?thesis
    using connect_twice_collides [OF h, of "tool []"] h iscsi_disk1 blk_disk1
    by (simp add: find_unique_name_eq encodable_disk1 fresh_def)
qed

section \<open>Two identities with one name\<close>

text \<open>
  C10. The address \<open>a_b\<close> with the qualified name \<open>c\<close> and the address \<open>a\<close> with the
  qualified name \<open>b_c\<close> are two different pairs for which \<^verbatim>\<open>_find_unique_name\<close> and
  \<^verbatim>\<open>_generate_unique_name\<close> give the same result for every prefix and state, since both
  hash the string \<open>a_b_c\<close>; so once one of the two is attached, attaching the other fails
  with the name collision of the first step, whatever the environment does.
\<close>

theorem unique_name_not_injective:
  "(''a_b'', ''c'') \<noteq> (''a'', ''b_c'')
   \<and> find_unique_name prefix ''a_b'' ''c'' w = find_unique_name prefix ''a'' ''b_c'' w
   \<and> generate_unique_name prefix ''a_b'' ''c'' w = generate_unique_name prefix ''a'' ''b_c'' w
   \<and> (connect_cloud_disk repr ex1 ''c'' ''a_b'' w = (Inr ok, w1) \<longrightarrow>
        connect_cloud_disk repr ex2 ''b_c'' ''a'' w1
          = (Inl (BadRequest ''Command failed with error''), w1))
   \<and> (connect_cloud_disk repr ex1 ''b_c'' ''a'' w = (Inr ok, w1) \<longrightarrow>
        connect_cloud_disk repr ex2 ''c'' ''a_b'' w1
          = (Inl (BadRequest ''Command failed with error''), w1))"
proof -
  have same: "\<And>p. unique_name p ''a_b'' ''c'' = unique_name p ''a'' ''b_c''"
    by (simp add: unique_name_def)
  have enc: "encodable ''a_b'' ''c''" "encodable ''a'' ''b_c''"
    by (simp_all add: encodable_def)
  have 1: "connect_cloud_disk repr ex1 ''c'' ''a_b'' w = (Inr ok, w1) \<longrightarrow>
        connect_cloud_disk repr ex2 ''b_c'' ''a'' w1
          = (Inl (BadRequest ''Command failed with error''), w1)"
    by (auto simp add: connect_eq Let_def same enc split: if_splits)
  have 2: "connect_cloud_disk repr ex1 ''b_c'' ''a'' w = (Inr ok, w1) \<longrightarrow>
        connect_cloud_disk repr ex2 ''c'' ''a_b'' w1
          = (Inl (BadRequest ''Command failed with error''), w1)"
    by (auto simp add: connect_eq Let_def same enc split: if_splits)
  show ?thesis
    using 1 2 by (simp add: find_unique_name_eq generate_unique_name_eq same enc)
qed

theorem unique_name_not_injective_witness:
  "find_unique_name ''iscsi'' ''a_b'' ''c'' fresh = (Inr ''iscsi8d28cddc'', fresh)
   \<and> find_unique_name ''iscsi'' ''a'' ''b_c'' fresh = (Inr ''iscsi8d28cddc'', fresh)
   \<and> connect_cloud_disk ascii_repr (tool []) ''c'' ''a_b'' fresh
       = (Inr [(''result'', ''Cloud disk connected successfully.'')],
          snd (connect_cloud_disk ascii_repr (tool []) ''c'' ''a_b'' fresh))
   \<and> connect_cloud_disk ascii_repr (tool []) ''b_c'' ''a''
         (snd (connect_cloud_disk ascii_repr (tool []) ''c'' ''a_b'' fresh))
       = (Inl (BadRequest ''Command failed with error''),
          snd (connect_cloud_disk ascii_repr (tool []) ''c'' ''a_b'' fresh))"
proof -
  let ?c = "connect_cloud_disk ascii_repr (tool []) ''c'' ''a_b'' fresh"
  have h: "?c = (Inr [(''result'', ''Cloud disk connected successfully.'')], snd ?c)"
    by (simp add: connect_eq Let_def tool_simps command_ok_simps encodable_def fresh_def)
  have n: "find_unique_name ''iscsi'' ''a'' ''b_c'' fresh = (Inr ''iscsi8d28cddc'', fresh)"
    using md5_a_b_c by (simp add: find_unique_name_def encode_def)
  show ?thesis
    using unique_name_not_injective [of "''iscsi''" fresh ascii_repr "tool []"
            "[(''result'', ''Cloud disk connected successfully.'')]" "snd ?c" "tool []"] h n
    by simp
qed

section \<open>The rollback of an attach\<close>

text \<open>
  C1, as the code has it. When \<^verbatim>\<open>execute_rpc_create_iscsi_bdev\<close> has returned the iscsi
  name and \<^verbatim>\<open>execute_rpc_emulator_virtio_blk_device_create\<close> then raises,
  \<^verbatim>\<open>connect_cloud_disk\<close> runs the \<^verbatim>\<open>bdev_iscsi_delete\<close> command for the iscsi name as
  its last command and ends in the state that \<^verbatim>\<open>execute_rpc_bdev_iscsi_delete\<close> leaves.
  It reports the failure of the second step, never that of the rollback:
  \<^verbatim>\<open>BadRequest('Cloud disk connection failed.')\<close> when the create command failed, and
  then the blk name is not in the set of names afterwards;
  \<^verbatim>\<open>BadRequest('Command failed with error')\<close> when the blk name was already taken, and
  then the blk name is still in the set afterwards. The iscsi name is released if and only
  if the rollback succeeds: when it does, the set of names is what it was before the call
  and does not contain the iscsi name; when it does not, the set is the one before the call
  plus the iscsi name.
\<close>

theorem connect_rollback:
  assumes step1: "execute_rpc_create_iscsi_bdev repr ex iqn ip w = (Inr iscsi_value, w1)"
      and step2: "execute_rpc_emulator_virtio_blk_device_create repr ex iscsi_value ip iqn w1
                    = (Inl e, w2)"
  shows "snd (connect_cloud_disk repr ex iqn ip w)
           = snd (execute_rpc_bdev_iscsi_delete repr ex iscsi_value w2)
         \<and> executed (snd (connect_cloud_disk repr ex iqn ip w))
             = executed w2 @ [cmd_bdev_iscsi_delete iscsi_value]
         \<and> (((\<exists>m c. e = RpcCommandError m c)
               \<and> fst (connect_cloud_disk repr ex iqn ip w)
                    = Inl (BadRequest ''Cloud disk connection failed.'')
               \<and> projr (fst (find_unique_name ''blk'' ip iqn w))
                    \<notin> created_devices (snd (connect_cloud_disk repr ex iqn ip w)))
            \<or> ((\<exists>m. e = ValueError m)
               \<and> fst (connect_cloud_disk repr ex iqn ip w)
                    = Inl (BadRequest ''Command failed with error'')
               \<and> projr (fst (find_unique_name ''blk'' ip iqn w))
                    \<in> created_devices (snd (connect_cloud_disk repr ex iqn ip w))))
         \<and> (\<not> isl (fst (execute_rpc_bdev_iscsi_delete repr ex iscsi_value w2)) \<longrightarrow>
               created_devices (snd (connect_cloud_disk repr ex iqn ip w)) = created_devices w
               \<and> iscsi_value \<notin> created_devices (snd (connect_cloud_disk repr ex iqn ip w)))
         \<and> (isl (fst (execute_rpc_bdev_iscsi_delete repr ex iscsi_value w2)) \<longrightarrow>
               created_devices (snd (connect_cloud_disk repr ex iqn ip w))
                 = insert iscsi_value (created_devices w)
               \<and> iscsi_value \<in> created_devices (snd (connect_cloud_disk repr ex iqn ip w)))"
proof -
  let ?n = "unique_name ''iscsi'' ip iqn" and ?b = "unique_name ''blk'' ip iqn"
  let ?c1 = "cmd_bdev_iscsi_create ?n iqn ip"
  from step1 have n: "iscsi_value = ?n" and free: "?n \<notin> created_devices w"
    and ok1: "command_ok (ex ?c1)" and enc: "encodable ip iqn"
    and w1: "w1 = w\<lparr>executed := executed w @ [?c1],
                     created_devices := insert ?n (created_devices w)\<rparr>"
    by (auto simp add: create_iscsi_eq Let_def split: if_splits)
  from step2 have cases2:
    "(?b \<in> created_devices w \<and> (\<exists>m. e = ValueError m) \<and> w2 = w1)
     \<or> (?b \<notin> created_devices w
        \<and> \<not> command_ok (ex (cmd_emulator_virtio_blk_device_create ?b ?n))
        \<and> (\<exists>m c. e = RpcCommandError m c)
        \<and> w2 = w1\<lparr>executed := executed w1 @ [cmd_emulator_virtio_blk_device_create ?b ?n]\<rparr>)"
    unfolding n w1 using enc
    by (auto simp add: create_blk_eq Let_def blk_iscsi_distinct split: if_splits)
  then show ?thesis
    using free ok1 enc
    by (auto simp add: n w1 connect_eq delete_iscsi_eq find_unique_name_eq Let_def
          blk_iscsi_distinct)
qed

theorem connect_rollback_witness:
  "connect_cloud_disk ascii_repr (tool [''emulator_virtio_blk_device_create''])
        ''iqn.2016-06.io.test:disk1'' ''10.0.0.5'' fresh
     = (Inl (BadRequest ''Cloud disk connection failed.''),
        \<lparr>created_devices = {},
         executed = [cmd_bdev_iscsi_create ''iscsia7165833'' ''iqn.2016-06.io.test:disk1'' ''10.0.0.5'',
                     cmd_emulator_virtio_blk_device_create ''blka7165833'' ''iscsia7165833'',
                     cmd_bdev_iscsi_delete ''iscsia7165833'']\<rparr>)
   \<and> connect_cloud_disk ascii_repr
        (tool [''emulator_virtio_blk_device_create'', ''bdev_iscsi_delete''])
        ''iqn.2016-06.io.test:disk1'' ''10.0.0.5'' fresh
     = (Inl (BadRequest ''Cloud disk connection failed.''),
        \<lparr>created_devices = {''iscsia7165833''},
         executed = [cmd_bdev_iscsi_create ''iscsia7165833'' ''iqn.2016-06.io.test:disk1'' ''10.0.0.5'',
                     cmd_emulator_virtio_blk_device_create ''blka7165833'' ''iscsia7165833'',
                     cmd_bdev_iscsi_delete ''iscsia7165833'']\<rparr>)"
proof -
  let ?iqn = "''iqn.2016-06.io.test:disk1''" and ?ip = "''10.0.0.5''"
  let ?c1 = "cmd_bdev_iscsi_create ''iscsia7165833'' ?iqn ?ip"
  let ?c2 = "cmd_emulator_virtio_blk_device_create ''blka7165833'' ''iscsia7165833''"
  let ?w1 = "\<lparr>created_devices = {''iscsia7165833''}, executed = [?c1]\<rparr>"
  have h1: "\<And>errs. ''bdev_iscsi_create'' \<notin> set errs \<Longrightarrow>
      execute_rpc_create_iscsi_bdev ascii_repr (tool errs) ?iqn ?ip fresh
        = (Inr ''iscsia7165833'', ?w1)"
    by (simp add: create_iscsi_eq Let_def iscsi_disk1 encodable_disk1 tool_simps
          command_ok_simps fresh_def)
  have h2: "\<And>errs. ''emulator_virtio_blk_device_create'' \<in> set errs \<Longrightarrow>
      execute_rpc_emulator_virtio_blk_device_create ascii_repr (tool errs)
          ''iscsia7165833'' ?ip ?iqn ?w1
      = (Inl (RpcCommandError
               (''Failed to execute emulator_virtio_blk_device_create command for iscsi_value ''
                  @ ''iscsia7165833'' @ '': ''
                  @ str_exn ascii_repr (caught ''emulator_virtio_blk_device_create'' (tool errs ?c2)))
               \<lparr>stdout = [],
                stderr = str_exn ascii_repr
                           (caught ''emulator_virtio_blk_device_create'' (tool errs ?c2))\<rparr>),
         ?w1\<lparr>executed := executed ?w1 @ [?c2]\<rparr>)"
    by (simp add: create_blk_eq Let_def blk_disk1 encodable_disk1 tool_simps command_ok_simps)
  have 1: "connect_cloud_disk ascii_repr (tool [''emulator_virtio_blk_device_create''])
             ?iqn ?ip fresh
     = (Inl (BadRequest ''Cloud disk connection failed.''),
        \<lparr>created_devices = {}, executed = [?c1, ?c2, cmd_bdev_iscsi_delete ''iscsia7165833'']\<rparr>)"
    using connect_rollback [OF h1 h2, of "[''emulator_virtio_blk_device_create'']"]
    by (cases "connect_cloud_disk ascii_repr (tool [''emulator_virtio_blk_device_create''])
                 ?iqn ?ip fresh")
       (simp add: delete_iscsi_eq tool_simps command_ok_simps Let_def fresh_def)
  have 2: "connect_cloud_disk ascii_repr
             (tool [''emulator_virtio_blk_device_create'', ''bdev_iscsi_delete'']) ?iqn ?ip fresh
     = (Inl (BadRequest ''Cloud disk connection failed.''),
        \<lparr>created_devices = {''iscsia7165833''},
         executed = [?c1, ?c2, cmd_bdev_iscsi_delete ''iscsia7165833'']\<rparr>)"
    using connect_rollback
            [OF h1 h2, of "[''emulator_virtio_blk_device_create'', ''bdev_iscsi_delete'']"]
    by (cases "connect_cloud_disk ascii_repr
                 (tool [''emulator_virtio_blk_device_create'', ''bdev_iscsi_delete''])
                 ?iqn ?ip fresh")
       (simp add: delete_iscsi_eq tool_simps command_ok_simps Let_def fresh_def)
  show ?thesis using 1 2 by (intro conjI)
qed

text \<open>
  Neither half of "the set afterwards contains neither name" holds for every such call.
  With an environment in which the front-end create command and the
  \<^verbatim>\<open>bdev_iscsi_delete\<close> command both fail, the first step succeeds, the second fails,
  the rollback command is run, and the iscsi name is still in the set of names when
  \<^verbatim>\<open>connect_cloud_disk\<close> has raised. And from a state in which only the blk name is
  recorded, with every command succeeding, the first step succeeds, the second raises for
  the name already taken, the rollback succeeds, and the blk name is in the set afterwards.
\<close>

theorem connect_rollback_release_counterexample:
  "fst (execute_rpc_create_iscsi_bdev ascii_repr
          (tool [''emulator_virtio_blk_device_create'', ''bdev_iscsi_delete''])
          ''iqn.2016-06.io.test:disk1'' ''10.0.0.5'' fresh) = Inr ''iscsia7165833''
   \<and> isl (fst (execute_rpc_emulator_virtio_blk_device_create ascii_repr
          (tool [''emulator_virtio_blk_device_create'', ''bdev_iscsi_delete''])
          ''iscsia7165833'' ''10.0.0.5'' ''iqn.2016-06.io.test:disk1''
          (snd (execute_rpc_create_iscsi_bdev ascii_repr
             (tool [''emulator_virtio_blk_device_create'', ''bdev_iscsi_delete''])
             ''iqn.2016-06.io.test:disk1'' ''10.0.0.5'' fresh))))
   \<and> connect_cloud_disk ascii_repr
        (tool [''emulator_virtio_blk_device_create'', ''bdev_iscsi_delete''])
        ''iqn.2016-06.io.test:disk1'' ''10.0.0.5'' fresh
     = (Inl (BadRequest ''Cloud disk connection failed.''),
        \<lparr>created_devices = {''iscsia7165833''},
         executed = [cmd_bdev_iscsi_create ''iscsia7165833'' ''iqn.2016-06.io.test:disk1'' ''10.0.0.5'',
                     cmd_emulator_virtio_blk_device_create ''blka7165833'' ''iscsia7165833'',
                     cmd_bdev_iscsi_delete ''iscsia7165833'']\<rparr>)
   \<and> ''iscsia7165833'' \<in> created_devices
        (snd (connect_cloud_disk ascii_repr
           (tool [''emulator_virtio_blk_device_create'', ''bdev_iscsi_delete''])
           ''iqn.2016-06.io.test:disk1'' ''10.0.0.5'' fresh))
   \<and> fst (execute_rpc_create_iscsi_bdev ascii_repr (tool [])
          ''iqn.2016-06.io.test:disk1'' ''10.0.0.5''
          \<lparr>created_devices = {''blka7165833''}, executed = []\<rparr>) = Inr ''iscsia7165833''
   \<and> isl (fst (execute_rpc_emulator_virtio_blk_device_create ascii_repr (tool [])
          ''iscsia7165833'' ''10.0.0.5'' ''iqn.2016-06.io.test:disk1''
          (snd (execute_rpc_create_iscsi_bdev ascii_repr (tool [])
             ''iqn.2016-06.io.test:disk1'' ''10.0.0.5''
             \<lparr>created_devices = {''blka7165833''}, executed = []\<rparr>))))
   \<and> connect_cloud_disk ascii_repr (tool []) ''iqn.2016-06.io.test:disk1'' ''10.0.0.5''
        \<lparr>created_devices = {''blka7165833''}, executed = []\<rparr>
     = (Inl (BadRequest ''Command failed with error''),
        \<lparr>created_devices = {''blka7165833''},
         executed = [cmd_bdev_iscsi_create ''iscsia7165833'' ''iqn.2016-06.io.test:disk1'' ''10.0.0.5'',
                     cmd_bdev_iscsi_delete ''iscsia7165833'']\<rparr>)
   \<and> ''blka7165833'' \<in> created_devices
        (snd (connect_cloud_disk ascii_repr (tool []) ''iqn.2016-06.io.test:disk1'' ''10.0.0.5''
           \<lparr>created_devices = {''blka7165833''}, executed = []\<rparr>))"
  by (simp add: connect_eq create_iscsi_eq create_blk_eq Let_def iscsi_disk1 blk_disk1
        encodable_disk1 tool_simps command_ok_simps fresh_def)

text \<open>
  C9, as the code has it. When the first step of \<^verbatim>\<open>connect_cloud_disk\<close> has returned the
  iscsi name, the second step raises, and the \<^verbatim>\<open>bdev_iscsi_delete\<close> command of the
  rollback does not succeed either (\<^verbatim>\<open>execute\<close> raises, or the error stream is not
  empty), then \<^verbatim>\<open>execute_rpc_bdev_iscsi_delete\<close> raises without touching the set of
  names, the exception is swallowed, and \<^verbatim>\<open>connect_cloud_disk\<close> raises with the iscsi
  name still recorded: the set of names is the one before the call plus the iscsi name.
  When the second step failed because its command failed, the blk name was not recorded
  before and is not recorded now, which is the state \<open>bdev_created\<close>. When it failed
  because the blk name was already recorded, both names are recorded afterwards.
\<close>

theorem connect_rollback_failure_residue:
  assumes step1: "execute_rpc_create_iscsi_bdev repr ex iqn ip w = (Inr iscsi_value, w1)"
      and step2: "execute_rpc_emulator_virtio_blk_device_create repr ex iscsi_value ip iqn w1
                    = (Inl e, w2)"
      and rollback: "\<forall>out. ex (cmd_bdev_iscsi_delete iscsi_value) \<noteq> Returned out []"
  shows "isl (fst (execute_rpc_bdev_iscsi_delete repr ex iscsi_value w2))
         \<and> created_devices (snd (execute_rpc_bdev_iscsi_delete repr ex iscsi_value w2))
             = created_devices w2
         \<and> isl (fst (connect_cloud_disk repr ex iqn ip w))
         \<and> snd (connect_cloud_disk repr ex iqn ip w)
             = snd (execute_rpc_bdev_iscsi_delete repr ex iscsi_value w2)
         \<and> iscsi_value = projr (fst (find_unique_name ''iscsi'' ip iqn w))
         \<and> iscsi_value \<in> created_devices (snd (connect_cloud_disk repr ex iqn ip w))
         \<and> created_devices (snd (connect_cloud_disk repr ex iqn ip w))
             = insert iscsi_value (created_devices w)
         \<and> (((\<exists>m c. e = RpcCommandError m c)
               \<and> projr (fst (find_unique_name ''blk'' ip iqn w)) \<notin> created_devices w
               \<and> projr (fst (find_unique_name ''blk'' ip iqn w))
                    \<notin> created_devices (snd (connect_cloud_disk repr ex iqn ip w)))
            \<or> ((\<exists>m. e = ValueError m)
               \<and> projr (fst (find_unique_name ''blk'' ip iqn w)) \<in> created_devices w
               \<and> projr (fst (find_unique_name ''blk'' ip iqn w))
                    \<in> created_devices (snd (connect_cloud_disk repr ex iqn ip w))))"
proof -
  let ?n = "unique_name ''iscsi'' ip iqn" and ?b = "unique_name ''blk'' ip iqn"
  let ?c1 = "cmd_bdev_iscsi_create ?n iqn ip"
  from step1 have n: "iscsi_value = ?n" and free: "?n \<notin> created_devices w"
    and ok1: "command_ok (ex ?c1)" and enc: "encodable ip iqn"
    and w1: "w1 = w\<lparr>executed := executed w @ [?c1],
                     created_devices := insert ?n (created_devices w)\<rparr>"
    by (auto simp add: create_iscsi_eq Let_def split: if_splits)
  from step2 have cases2:
    "(?b \<in> created_devices w \<and> (\<exists>m. e = ValueError m) \<and> w2 = w1)
     \<or> (?b \<notin> created_devices w
        \<and> \<not> command_ok (ex (cmd_emulator_virtio_blk_device_create ?b ?n))
        \<and> (\<exists>m c. e = RpcCommandError m c)
        \<and> w2 = w1\<lparr>executed := executed w1 @ [cmd_emulator_virtio_blk_device_create ?b ?n]\<rparr>)"
    unfolding n w1 using enc
    by (auto simp add: create_blk_eq Let_def blk_iscsi_distinct split: if_splits)
  from rollback have bad: "\<not> command_ok (ex (cmd_bdev_iscsi_delete ?n))"
    unfolding n by (simp add: command_ok_iff)
  from cases2 show ?thesis
    using free ok1 bad enc
    by (auto simp add: n w1 connect_eq delete_iscsi_eq find_unique_name_eq Let_def
          blk_iscsi_distinct)
qed

theorem connect_rollback_failure_residue_witness:
  "connect_cloud_disk ascii_repr
        (tool [''emulator_virtio_blk_device_create'', ''bdev_iscsi_delete''])
        ''iqn.2016-06.io.test:disk1'' ''10.0.0.5'' fresh
     = (fst (connect_cloud_disk ascii_repr
               (tool [''emulator_virtio_blk_device_create'', ''bdev_iscsi_delete''])
               ''iqn.2016-06.io.test:disk1'' ''10.0.0.5'' fresh),
        \<lparr>created_devices = {''iscsia7165833''},
         executed = [cmd_bdev_iscsi_create ''iscsia7165833'' ''iqn.2016-06.io.test:disk1'' ''10.0.0.5'',
                     cmd_emulator_virtio_blk_device_create ''blka7165833'' ''iscsia7165833'',
                     cmd_bdev_iscsi_delete ''iscsia7165833'']\<rparr>)
   \<and> isl (fst (connect_cloud_disk ascii_repr
                 (tool [''emulator_virtio_blk_device_create'', ''bdev_iscsi_delete''])
                 ''iqn.2016-06.io.test:disk1'' ''10.0.0.5'' fresh))"
proof -
  let ?ex = "tool [''emulator_virtio_blk_device_create'', ''bdev_iscsi_delete'']"
  let ?iqn = "''iqn.2016-06.io.test:disk1''" and ?ip = "''10.0.0.5''"
  let ?c1 = "cmd_bdev_iscsi_create ''iscsia7165833'' ?iqn ?ip"
  let ?c2 = "cmd_emulator_virtio_blk_device_create ''blka7165833'' ''iscsia7165833''"
  let ?w1 = "\<lparr>created_devices = {''iscsia7165833''}, executed = [?c1]\<rparr>"
  let ?e = "caught ''emulator_virtio_blk_device_create'' (?ex ?c2)"
  have h1: "execute_rpc_create_iscsi_bdev ascii_repr ?ex ?iqn ?ip fresh = (Inr ''iscsia7165833'', ?w1)"
    by (simp add: create_iscsi_eq Let_def iscsi_disk1 encodable_disk1 tool_simps
          command_ok_simps fresh_def)
  have h2: "execute_rpc_emulator_virtio_blk_device_create ascii_repr ?ex ''iscsia7165833'' ?ip ?iqn ?w1
      = (Inl (RpcCommandError
               (''Failed to execute emulator_virtio_blk_device_create command for iscsi_value ''
                  @ ''iscsia7165833'' @ '': '' @ str_exn ascii_repr ?e)
               \<lparr>stdout = [], stderr = str_exn ascii_repr ?e\<rparr>),
         ?w1\<lparr>executed := executed ?w1 @ [?c2]\<rparr>)"
    by (simp add: create_blk_eq Let_def blk_disk1 encodable_disk1 tool_simps command_ok_simps)
  have h3: "\<forall>out. ?ex (cmd_bdev_iscsi_delete ''iscsia7165833'') \<noteq> Returned out []"
    by (simp add: tool_simps)
  show ?thesis
    using connect_rollback_failure_residue [OF h1 h2 h3]
    by (cases "connect_cloud_disk ascii_repr ?ex ?iqn ?ip fresh")
       (simp add: delete_iscsi_eq tool_simps command_ok_simps Let_def fresh_def)
qed

text \<open>
  The identity is not always left in \<open>bdev_created\<close>: from a state in which only the
  blk name is recorded and an environment in which only \<^verbatim>\<open>bdev_iscsi_delete\<close> fails,
  the first step succeeds, the second raises, the rollback command fails, and afterwards
  both the iscsi name and the blk name are recorded.
\<close>

theorem connect_rollback_residue_attached_counterexample:
  "fst (execute_rpc_create_iscsi_bdev ascii_repr (tool [''bdev_iscsi_delete''])
          ''iqn.2016-06.io.test:disk1'' ''10.0.0.5''
          \<lparr>created_devices = {''blka7165833''}, executed = []\<rparr>) = Inr ''iscsia7165833''
   \<and> isl (fst (execute_rpc_emulator_virtio_blk_device_create ascii_repr (tool [''bdev_iscsi_delete''])
          ''iscsia7165833'' ''10.0.0.5'' ''iqn.2016-06.io.test:disk1''
          (snd (execute_rpc_create_iscsi_bdev ascii_repr (tool [''bdev_iscsi_delete''])
             ''iqn.2016-06.io.test:disk1'' ''10.0.0.5''
             \<lparr>created_devices = {''blka7165833''}, executed = []\<rparr>))))
   \<and> tool [''bdev_iscsi_delete''] (cmd_bdev_iscsi_delete ''iscsia7165833'')
       = Returned ''Executing: bdev_iscsi_delete'' ''bdev_iscsi_delete command failed as configured''
   \<and> connect_cloud_disk ascii_repr (tool [''bdev_iscsi_delete''])
        ''iqn.2016-06.io.test:disk1'' ''10.0.0.5''
        \<lparr>created_devices = {''blka7165833''}, executed = []\<rparr>
     = (Inl (BadRequest ''Command failed with error''),
        \<lparr>created_devices = {''iscsia7165833'', ''blka7165833''},
         executed = [cmd_bdev_iscsi_create ''iscsia7165833'' ''iqn.2016-06.io.test:disk1'' ''10.0.0.5'',
                     cmd_bdev_iscsi_delete ''iscsia7165833'']\<rparr>)
   \<and> ''blka7165833'' \<in> created_devices
        (snd (connect_cloud_disk ascii_repr (tool [''bdev_iscsi_delete''])
           ''iqn.2016-06.io.test:disk1'' ''10.0.0.5''
           \<lparr>created_devices = {''blka7165833''}, executed = []\<rparr>))"
  by (simp add: connect_eq create_iscsi_eq create_blk_eq Let_def iscsi_disk1 blk_disk1
        encodable_disk1 tool_simps command_ok_simps)

section \<open>A detach that fails half-way\<close>

text \<open>
  C2, as the code has it. When \<^verbatim>\<open>disconnect_cloud_disk\<close> has resolved the blk name,
  deleted the front-end device, resolved the iscsi name, and the \<^verbatim>\<open>bdev_iscsi_delete\<close>
  step then raises, the call fails with \<^verbatim>\<open>BadRequest('Cloud disk disconnection
  failed.')\<close> and the set of names is the earlier one without the blk name: it contains the
  iscsi name and not the blk name. A \<^verbatim>\<open>disconnect_cloud_disk\<close> issued again for the same
  pair then fails at its first step, whatever the environment does: \<^verbatim>\<open>check_blk_name\<close>
  raises for the blk name that is no longer recorded, the caller gets \<^verbatim>\<open>BadRequest('Command
  failed with error.')\<close>, no command is run and the iscsi name stays recorded.
\<close>

theorem disconnect_partial_failure:
  assumes step1: "check_blk_name ip iqn w = (Inr blk_name, w1)"
      and step2: "execute_rpc_emulator_virtio_blk_device_delete repr ex blk_name w1 = (Inr u, w2)"
      and step3: "check_iscsi_name ip iqn w2 = (Inr iscsi_name, w3)"
      and step4: "execute_rpc_bdev_iscsi_delete repr ex iscsi_name w3 = (Inl e, w4)"
  shows "disconnect_cloud_disk repr ex iqn ip w
           = (Inl (BadRequest ''Cloud disk disconnection failed.''), w4)
         \<and> created_devices w4 = created_devices w - {blk_name}
         \<and> iscsi_name \<in> created_devices w4
         \<and> blk_name \<notin> created_devices w4
         \<and> check_blk_name ip iqn w4
             = (Inl (ValueError (''Block device name '' @ [CHR 0x27] @ blk_name @ [CHR 0x27]
                       @ '' does not exist.'')), w4)
         \<and> disconnect_cloud_disk repr' ex' iqn ip w4
             = (Inl (BadRequest ''Command failed with error.''), w4)"
proof -
  let ?n = "unique_name ''iscsi'' ip iqn" and ?b = "unique_name ''blk'' ip iqn"
  from step1 have b: "blk_name = ?b" and inb: "?b \<in> created_devices w" and w1: "w1 = w"
    and enc: "encodable ip iqn"
    by (auto simp add: check_blk_name_def find_unique_name_eq split: if_splits)
  from step2 have ok1: "command_ok (ex (cmd_emulator_virtio_blk_device_delete ?b))"
    and w2: "w2 = w\<lparr>executed := executed w @ [cmd_emulator_virtio_blk_device_delete ?b],
                     created_devices := created_devices w - {?b}\<rparr>"
    unfolding b w1 by (auto simp add: delete_blk_eq Let_def split: if_splits)
  from step3 have n: "iscsi_name = ?n" and inn: "?n \<in> created_devices w" and w3: "w3 = w2"
    unfolding w2 by (auto simp add: check_iscsi_name_def find_unique_name_eq split: if_splits)
  from step4 have bad: "\<not> command_ok (ex (cmd_bdev_iscsi_delete ?n))"
    and w4: "w4 = w2\<lparr>executed := executed w2 @ [cmd_bdev_iscsi_delete ?n]\<rparr>"
    unfolding n w3 by (auto simp add: delete_iscsi_eq Let_def split: if_splits)
  show ?thesis
    using inb inn ok1 bad enc
    by (simp add: b n w4 w2 disconnect_eq check_blk_name_def find_unique_name_eq Let_def
          iscsi_blk_distinct)
qed

theorem disconnect_partial_failure_witness:
  "disconnect_cloud_disk ascii_repr (tool [''bdev_iscsi_delete''])
       ''iqn.2016-06.io.test:disk1'' ''10.0.0.5''
       \<lparr>created_devices = {''iscsia7165833'', ''blka7165833''}, executed = []\<rparr>
     = (Inl (BadRequest ''Cloud disk disconnection failed.''),
        \<lparr>created_devices = {''iscsia7165833''},
         executed = [cmd_emulator_virtio_blk_device_delete ''blka7165833'',
                     cmd_bdev_iscsi_delete ''iscsia7165833'']\<rparr>)
   \<and> disconnect_cloud_disk ascii_repr (tool []) ''iqn.2016-06.io.test:disk1'' ''10.0.0.5''
       \<lparr>created_devices = {''iscsia7165833''},
        executed = [cmd_emulator_virtio_blk_device_delete ''blka7165833'',
                    cmd_bdev_iscsi_delete ''iscsia7165833'']\<rparr>
     = (Inl (BadRequest ''Command failed with error.''),
        \<lparr>created_devices = {''iscsia7165833''},
         executed = [cmd_emulator_virtio_blk_device_delete ''blka7165833'',
                     cmd_bdev_iscsi_delete ''iscsia7165833'']\<rparr>)"
proof -
  let ?ex = "tool [''bdev_iscsi_delete'']"
  let ?iqn = "''iqn.2016-06.io.test:disk1''" and ?ip = "''10.0.0.5''"
  let ?w = "\<lparr>created_devices = {''iscsia7165833'', ''blka7165833''}, executed = []\<rparr>"
  let ?w2 = "\<lparr>created_devices = {''iscsia7165833''},
              executed = [cmd_emulator_virtio_blk_device_delete ''blka7165833'']\<rparr>"
  let ?w4 = "\<lparr>created_devices = {''iscsia7165833''},
              executed = [cmd_emulator_virtio_blk_device_delete ''blka7165833'',
                          cmd_bdev_iscsi_delete ''iscsia7165833'']\<rparr>"
  let ?e = "caught ''bdev_iscsi_delete'' (?ex (cmd_bdev_iscsi_delete ''iscsia7165833''))"
  have h1: "check_blk_name ?ip ?iqn ?w = (Inr ''blka7165833'', ?w)"
    by (simp add: check_blk_name_def find_unique_name_eq encodable_disk1 blk_disk1)
  have h2: "execute_rpc_emulator_virtio_blk_device_delete ascii_repr ?ex ''blka7165833'' ?w
              = (Inr (), ?w2)"
    by (simp add: delete_blk_eq Let_def tool_simps command_ok_simps insert_Diff_if)
  have h3: "check_iscsi_name ?ip ?iqn ?w2 = (Inr ''iscsia7165833'', ?w2)"
    by (simp add: check_iscsi_name_def find_unique_name_eq encodable_disk1 iscsi_disk1)
  have h4: "execute_rpc_bdev_iscsi_delete ascii_repr ?ex ''iscsia7165833'' ?w2
      = (Inl (RpcCommandError
               (''Failed to execute bdev_iscsi_delete command for iSCSI name ''
                  @ ''iscsia7165833'' @ '': '' @ str_exn ascii_repr ?e)
               \<lparr>stdout = [], stderr = str_exn ascii_repr ?e\<rparr>), ?w4)"
    by (simp add: delete_iscsi_eq Let_def tool_simps command_ok_simps)
  show ?thesis
    using disconnect_partial_failure [OF h1 h2 h3 h4, of ascii_repr "tool []"]
    by (simp add: insert_Diff_if)
qed

text \<open>
  The second \<^verbatim>\<open>disconnect_cloud_disk\<close> does not succeed: from a state with both names
  recorded and an environment in which only \<^verbatim>\<open>bdev_iscsi_delete\<close> fails, the first call
  leaves exactly the iscsi name, and a second call in an environment where every command
  succeeds raises \<^verbatim>\<open>BadRequest\<close>.
\<close>

theorem disconnect_retry_counterexample:
  "check_blk_name ''10.0.0.5'' ''iqn.2016-06.io.test:disk1''
       \<lparr>created_devices = {''iscsia7165833'', ''blka7165833''}, executed = []\<rparr>
     = (Inr ''blka7165833'',
        \<lparr>created_devices = {''iscsia7165833'', ''blka7165833''}, executed = []\<rparr>)
   \<and> execute_rpc_emulator_virtio_blk_device_delete ascii_repr (tool [''bdev_iscsi_delete''])
       ''blka7165833''
       \<lparr>created_devices = {''iscsia7165833'', ''blka7165833''}, executed = []\<rparr>
     = (Inr (),
        \<lparr>created_devices = {''iscsia7165833''},
         executed = [cmd_emulator_virtio_blk_device_delete ''blka7165833'']\<rparr>)
   \<and> isl (fst (execute_rpc_bdev_iscsi_delete ascii_repr (tool [''bdev_iscsi_delete''])
       ''iscsia7165833''
       \<lparr>created_devices = {''iscsia7165833''},
        executed = [cmd_emulator_virtio_blk_device_delete ''blka7165833'']\<rparr>))
   \<and> snd (disconnect_cloud_disk ascii_repr (tool [''bdev_iscsi_delete''])
            ''iqn.2016-06.io.test:disk1'' ''10.0.0.5''
            \<lparr>created_devices = {''iscsia7165833'', ''blka7165833''}, executed = []\<rparr>)
     = \<lparr>created_devices = {''iscsia7165833''},
        executed = [cmd_emulator_virtio_blk_device_delete ''blka7165833'',
                    cmd_bdev_iscsi_delete ''iscsia7165833'']\<rparr>
   \<and> fst (disconnect_cloud_disk ascii_repr (tool []) ''iqn.2016-06.io.test:disk1'' ''10.0.0.5''
       \<lparr>created_devices = {''iscsia7165833''},
        executed = [cmd_emulator_virtio_blk_device_delete ''blka7165833'',
                    cmd_bdev_iscsi_delete ''iscsia7165833'']\<rparr>)
     = Inl (BadRequest ''Command failed with error.'')"
  by (simp add: disconnect_eq check_blk_name_def find_unique_name_eq delete_blk_eq
        delete_iscsi_eq Let_def iscsi_disk1 blk_disk1 encodable_disk1 tool_simps
        command_ok_simps insert_Diff_if)

section \<open>The command executor\<close>

text \<open>
  C7, as the code has it. Each of the four \<^verbatim>\<open>execute_rpc_*\<close> methods, once it runs its
  command (for the two create methods: once the name is derived and free), fails if and
  only if \<^verbatim>\<open>execute\<close> returns a non-empty error stream or \<^verbatim>\<open>execute\<close> raises, be it
  because the process could not be started or after the process has run. The methods never
  look at an exit status. Every failure is raised as the one exception
  \<^verbatim>\<open>RpcCommandError\<close>, whose \<^verbatim>\<open>cmd_result\<close> has an empty \<^verbatim>\<open>stdout\<close> and, as
  \<^verbatim>\<open>stderr\<close>, the text of the exception caught: the text of the exception of
  \<^verbatim>\<open>execute\<close> when it raised, and otherwise the text made of the captured error stream
  followed by the printed dictionary of the captured output and error stream, for whatever
  Python's \<^verbatim>\<open>repr\<close> prints. The same text ends the message.
\<close>

theorem executor_failure_classification:
  "(fst (find_unique_name ''iscsi'' ip iqn w) = Inr n \<and> n \<notin> created_devices w \<longrightarrow>
    fst (execute_rpc_create_iscsi_bdev repr ex iqn ip w) =
     (case ex (cmd_bdev_iscsi_create n iqn ip) of
        Returned out err \<Rightarrow>
          if err = [] then Inr n
          else let t = ''Error executing bdev_iscsi_create command. Error: '' @ err
                         @ ''. Cmd Result: '' @ ''{'stdout': '' @ repr out
                         @ '', 'stderr': '' @ repr err @ ''}''
               in Inl (RpcCommandError
                        (''Failed to execute bdev_iscsi_create command for IQN '' @ iqn
                           @ '' and IP '' @ ip @ '': '' @ t)
                        \<lparr>stdout = [], stderr = t\<rparr>)
      | LaunchError m \<Rightarrow>
          Inl (RpcCommandError
                (''Failed to execute bdev_iscsi_create command for IQN '' @ iqn
                   @ '' and IP '' @ ip @ '': '' @ m)
                \<lparr>stdout = [], stderr = m\<rparr>)
      | ProcessExecutionError exit_code out err m \<Rightarrow>
          Inl (RpcCommandError
                (''Failed to execute bdev_iscsi_create command for IQN '' @ iqn
                   @ '' and IP '' @ ip @ '': '' @ m)
                \<lparr>stdout = [], stderr = m\<rparr>)))
   \<and> (fst (find_unique_name ''blk'' ip iqn w) = Inr b \<and> b \<notin> created_devices w \<longrightarrow>
    fst (execute_rpc_emulator_virtio_blk_device_create repr ex iscsi_value ip iqn w) =
     (case ex (cmd_emulator_virtio_blk_device_create b iscsi_value) of
        Returned out err \<Rightarrow>
          if err = [] then Inr b
          else let t = ''Error executing emulator_virtio_blk_device_create command. Error: '' @ err
                         @ ''. Cmd Result: '' @ ''{'stdout': '' @ repr out
                         @ '', 'stderr': '' @ repr err @ ''}''
               in Inl (RpcCommandError
                        (''Failed to execute emulator_virtio_blk_device_create command for iscsi_value ''
                           @ iscsi_value @ '': '' @ t)
                        \<lparr>stdout = [], stderr = t\<rparr>)
      | LaunchError m \<Rightarrow>
          Inl (RpcCommandError
                (''Failed to execute emulator_virtio_blk_device_create command for iscsi_value ''
                   @ iscsi_value @ '': '' @ m)
                \<lparr>stdout = [], stderr = m\<rparr>)
      | ProcessExecutionError exit_code out err m \<Rightarrow>
          Inl (RpcCommandError
                (''Failed to execute emulator_virtio_blk_device_create command for iscsi_value ''
                   @ iscsi_value @ '': '' @ m)
                \<lparr>stdout = [], stderr = m\<rparr>)))
   \<and> fst (execute_rpc_emulator_virtio_blk_device_delete repr ex blk_name w) =
     (case ex (cmd_emulator_virtio_blk_device_delete blk_name) of
        Returned out err \<Rightarrow>
          if err = [] then Inr ()
          else let t = ''Error executing emulator_virtio_blk_device_delete command. Error: '' @ err
                         @ ''. Cmd Result: '' @ ''{'stdout': '' @ repr out
                         @ '', 'stderr': '' @ repr err @ ''}''
               in Inl (RpcCommandError
                        (''Failed to execute emulator_virtio_blk_device_delete command for block device name ''
                           @ blk_name @ '': '' @ t)
                        \<lparr>stdout = [], stderr = t\<rparr>)
      | LaunchError m \<Rightarrow>
          Inl (RpcCommandError
                (''Failed to execute emulator_virtio_blk_device_delete command for block device name ''
                   @ blk_name @ '': '' @ m)
                \<lparr>stdout = [], stderr = m\<rparr>)
      | ProcessExecutionError exit_code out err m \<Rightarrow>
          Inl (RpcCommandError
                (''Failed to execute emulator_virtio_blk_device_delete command for block device name ''
                   @ blk_name @ '': '' @ m)
                \<lparr>stdout = [], stderr = m\<rparr>))
   \<and> fst (execute_rpc_bdev_iscsi_delete repr ex iscsi_name w) =
     (case ex (cmd_bdev_iscsi_delete iscsi_name) of
        Returned out err \<Rightarrow>
          if err = [] then Inr ()
          else let t = ''Error executing bdev_iscsi_delete command. Error: '' @ err
                         @ ''. Cmd Result: '' @ ''{'stdout': '' @ repr out
                         @ '', 'stderr': '' @ repr err @ ''}''
               in Inl (RpcCommandError
                        (''Failed to execute bdev_iscsi_delete command for iSCSI name ''
                           @ iscsi_name @ '': '' @ t)
                        \<lparr>stdout = [], stderr = t\<rparr>)
      | LaunchError m \<Rightarrow>
          Inl (RpcCommandError
                (''Failed to execute bdev_iscsi_delete command for iSCSI name ''
                   @ iscsi_name @ '': '' @ m)
                \<lparr>stdout = [], stderr = m\<rparr>)
      | ProcessExecutionError exit_code out err m \<Rightarrow>
          Inl (RpcCommandError
                (''Failed to execute bdev_iscsi_delete command for iSCSI name ''
                   @ iscsi_name @ '': '' @ m)
                \<lparr>stdout = [], stderr = m\<rparr>))
   \<and> (fst (find_unique_name ''iscsi'' ip iqn w) = Inr n \<and> n \<notin> created_devices w \<longrightarrow>
        (isl (fst (execute_rpc_create_iscsi_bdev repr ex iqn ip w)) \<longleftrightarrow>
           (\<exists>out err. ex (cmd_bdev_iscsi_create n iqn ip) = Returned out err \<and> err \<noteq> [])
           \<or> (\<exists>m. ex (cmd_bdev_iscsi_create n iqn ip) = LaunchError m)
           \<or> (\<exists>exit_code out err m.
                 ex (cmd_bdev_iscsi_create n iqn ip) = ProcessExecutionError exit_code out err m)))
   \<and> (fst (find_unique_name ''blk'' ip iqn w) = Inr b \<and> b \<notin> created_devices w \<longrightarrow>
        (isl (fst (execute_rpc_emulator_virtio_blk_device_create repr ex iscsi_value ip iqn w)) \<longleftrightarrow>
           (\<exists>out err. ex (cmd_emulator_virtio_blk_device_create b iscsi_value) = Returned out err
                        \<and> err \<noteq> [])
           \<or> (\<exists>m. ex (cmd_emulator_virtio_blk_device_create b iscsi_value) = LaunchError m)
           \<or> (\<exists>exit_code out err m.
                 ex (cmd_emulator_virtio_blk_device_create b iscsi_value)
                   = ProcessExecutionError exit_code out err m)))
   \<and> (isl (fst (execute_rpc_emulator_virtio_blk_device_delete repr ex blk_name w)) \<longleftrightarrow>
           (\<exists>out err. ex (cmd_emulator_virtio_blk_device_delete blk_name) = Returned out err
                        \<and> err \<noteq> [])
           \<or> (\<exists>m. ex (cmd_emulator_virtio_blk_device_delete blk_name) = LaunchError m)
           \<or> (\<exists>exit_code out err m.
                 ex (cmd_emulator_virtio_blk_device_delete blk_name)
                   = ProcessExecutionError exit_code out err m))
   \<and> (isl (fst (execute_rpc_bdev_iscsi_delete repr ex iscsi_name w)) \<longleftrightarrow>
           (\<exists>out err. ex (cmd_bdev_iscsi_delete iscsi_name) = Returned out err \<and> err \<noteq> [])
           \<or> (\<exists>m. ex (cmd_bdev_iscsi_delete iscsi_name) = LaunchError m)
           \<or> (\<exists>exit_code out err m.
                 ex (cmd_bdev_iscsi_delete iscsi_name) = ProcessExecutionError exit_code out err m))"
  apply (intro conjI impI)
  subgoal by (erule conjE) (erule (1) create_iscsi_classified)
  subgoal by (erule conjE) (erule (1) create_blk_classified)
  subgoal by (rule delete_blk_classified)
  subgoal by (rule delete_iscsi_classified)
  subgoal by (cases "ex (cmd_bdev_iscsi_create n iqn ip)")
             (auto simp add: find_Inr_iff create_iscsi_eq Let_def command_ok_simps)
  subgoal by (cases "ex (cmd_emulator_virtio_blk_device_create b iscsi_value)")
             (auto simp add: find_Inr_iff create_blk_eq Let_def command_ok_simps)
  subgoal by (cases "ex (cmd_emulator_virtio_blk_device_delete blk_name)")
             (simp_all add: delete_blk_eq Let_def command_ok_simps)
  subgoal by (cases "ex (cmd_bdev_iscsi_delete iscsi_name)")
             (simp_all add: delete_iscsi_eq Let_def command_ok_simps)
  done

theorem executor_failure_classification_witness:
  "fst (execute_rpc_bdev_iscsi_delete ascii_repr (tool [''bdev_iscsi_delete''])
          ''iscsia7165833'' fresh)
     = Inl (RpcCommandError
             ''Failed to execute bdev_iscsi_delete command for iSCSI name iscsia7165833: Error executing bdev_iscsi_delete command. Error: bdev_iscsi_delete command failed as configured. Cmd Result: {'stdout': 'Executing: bdev_iscsi_delete', 'stderr': 'bdev_iscsi_delete command failed as configured'}''
             \<lparr>stdout = [],
              stderr = ''Error executing bdev_iscsi_delete command. Error: bdev_iscsi_delete command failed as configured. Cmd Result: {'stdout': 'Executing: bdev_iscsi_delete', 'stderr': 'bdev_iscsi_delete command failed as configured'}''\<rparr>)
   \<and> fst (execute_rpc_create_iscsi_bdev ascii_repr unavailable
            ''iqn.2016-06.io.test:disk1'' ''10.0.0.5'' fresh)
     = Inl (RpcCommandError
             ''Failed to execute bdev_iscsi_create command for IQN iqn.2016-06.io.test:disk1 and IP 10.0.0.5: [Errno 2] No such file or directory''
             \<lparr>stdout = [], stderr = ''[Errno 2] No such file or directory''\<rparr>)
   \<and> fst (execute_rpc_bdev_iscsi_delete ascii_repr (tool []) ''iscsia7165833'' fresh) = Inr ()"
proof -
  note c = executor_failure_classification
             [where ip = "''10.0.0.5''" and iqn = "''iqn.2016-06.io.test:disk1''" and w = fresh
                and n = "''iscsia7165833''" and b = "''blka7165833''" and repr = ascii_repr
                and iscsi_value = "''iscsia7165833''" and blk_name = "''blka7165833''"
                and iscsi_name = "''iscsia7165833''"]
  have free: "fst (find_unique_name ''iscsi'' ''10.0.0.5'' ''iqn.2016-06.io.test:disk1'' fresh)
                = Inr ''iscsia7165833'' \<and> ''iscsia7165833'' \<notin> created_devices fresh"
    by (simp add: find_unique_name_eq encodable_disk1 iscsi_disk1 fresh_def)
  have 1: "fst (execute_rpc_bdev_iscsi_delete ascii_repr (tool [''bdev_iscsi_delete''])
                  ''iscsia7165833'' fresh)
     = Inl (RpcCommandError
             ''Failed to execute bdev_iscsi_delete command for iSCSI name iscsia7165833: Error executing bdev_iscsi_delete command. Error: bdev_iscsi_delete command failed as configured. Cmd Result: {'stdout': 'Executing: bdev_iscsi_delete', 'stderr': 'bdev_iscsi_delete command failed as configured'}''
             \<lparr>stdout = [],
              stderr = ''Error executing bdev_iscsi_delete command. Error: bdev_iscsi_delete command failed as configured. Cmd Result: {'stdout': 'Executing: bdev_iscsi_delete', 'stderr': 'bdev_iscsi_delete command failed as configured'}''\<rparr>)"
    using c [where ex = "tool [''bdev_iscsi_delete'']", THEN conjunct2, THEN conjunct2,
             THEN conjunct2, THEN conjunct1]
    by (simp add: tool_simps ascii_repr_plain Let_def)
  have 2: "fst (execute_rpc_create_iscsi_bdev ascii_repr unavailable
                  ''iqn.2016-06.io.test:disk1'' ''10.0.0.5'' fresh)
     = Inl (RpcCommandError
             ''Failed to execute bdev_iscsi_create command for IQN iqn.2016-06.io.test:disk1 and IP 10.0.0.5: [Errno 2] No such file or directory''
             \<lparr>stdout = [], stderr = ''[Errno 2] No such file or directory''\<rparr>)"
    using c [where ex = unavailable, THEN conjunct1, rule_format, OF free]
    by (simp add: unavailable_def)
  have 3: "fst (execute_rpc_bdev_iscsi_delete ascii_repr (tool []) ''iscsia7165833'' fresh) = Inr ()"
    using c [where ex = "tool []", THEN conjunct2, THEN conjunct2, THEN conjunct2, THEN conjunct1]
    by (simp add: tool_simps)
  show ?thesis
    using 1 2 3 by (intro conjI)
qed

text \<open>
  A failure does not need a non-empty error stream or a process that cannot be started:
  when the process runs, writes nothing to its error stream and \<^verbatim>\<open>execute\<close> raises for
  its exit status 1, \<^verbatim>\<open>execute_rpc_bdev_iscsi_delete\<close> raises \<^verbatim>\<open>RpcCommandError\<close> and
  leaves the name recorded.
\<close>

theorem executor_exit_status_counterexample:
  "exits_with_1 (cmd_bdev_iscsi_delete ''iscsia7165833'')
     = ProcessExecutionError 1 [] [] ''Unexpected error while running command.''
   \<and> execute_rpc_bdev_iscsi_delete ascii_repr exits_with_1 ''iscsia7165833''
       \<lparr>created_devices = {''iscsia7165833''}, executed = []\<rparr>
     = (Inl (RpcCommandError
              ''Failed to execute bdev_iscsi_delete command for iSCSI name iscsia7165833: Unexpected error while running command.''
              \<lparr>stdout = [], stderr = ''Unexpected error while running command.''\<rparr>),
        \<lparr>created_devices = {''iscsia7165833''},
         executed = [cmd_bdev_iscsi_delete ''iscsia7165833'']\<rparr>)"
  by (simp add: exits_with_1_def delete_iscsi_eq Let_def command_ok_simps str_caught_simps)

section \<open>When the set of names changes\<close>

text \<open>
  C8. In each of the four steps the set of names changes only when the step returns
  normally, and the step returns normally only after its command has been run and has
  returned an empty error stream: a create step then adds its name, a delete step then
  removes its name, and a step whose command fails leaves the set as it was. For the two
  workflows: \<^verbatim>\<open>connect_cloud_disk\<close> removes no name that was recorded before and adds a
  name only if the create command for that name succeeded; \<^verbatim>\<open>disconnect_cloud_disk\<close>
  adds no name and removes a name only if the delete command for that name succeeded.
\<close>

theorem name_set_mutation_invariant:
  "(let r = execute_rpc_create_iscsi_bdev repr ex iqn ip w;
        n = projr (fst (find_unique_name ''iscsi'' ip iqn w));
        c = cmd_bdev_iscsi_create n iqn ip
    in created_devices (snd r)
         = (if isl (fst r) then created_devices w else insert n (created_devices w))
       \<and> (\<not> isl (fst r) \<longrightarrow> (\<exists>out. ex c = Returned out []) \<and> executed (snd r) = executed w @ [c])
       \<and> (c \<in> set (executed (snd r)) - set (executed w) \<and> (\<forall>out. ex c \<noteq> Returned out []) \<longrightarrow>
             created_devices (snd r) = created_devices w))
   \<and> (let r = execute_rpc_emulator_virtio_blk_device_create repr ex iscsi_value ip iqn w;
        b = projr (fst (find_unique_name ''blk'' ip iqn w));
        c = cmd_emulator_virtio_blk_device_create b iscsi_value
    in created_devices (snd r)
         = (if isl (fst r) then created_devices w else insert b (created_devices w))
       \<and> (\<not> isl (fst r) \<longrightarrow> (\<exists>out. ex c = Returned out []) \<and> executed (snd r) = executed w @ [c])
       \<and> (c \<in> set (executed (snd r)) - set (executed w) \<and> (\<forall>out. ex c \<noteq> Returned out []) \<longrightarrow>
             created_devices (snd r) = created_devices w))
   \<and> (let r = execute_rpc_emulator_virtio_blk_device_delete repr ex blk_name w;
        c = cmd_emulator_virtio_blk_device_delete blk_name
    in created_devices (snd r)
         = (if isl (fst r) then created_devices w else created_devices w - {blk_name})
       \<and> executed (snd r) = executed w @ [c]
       \<and> (\<not> isl (fst r) \<longleftrightarrow> (\<exists>out. ex c = Returned out [])))
   \<and> (let r = execute_rpc_bdev_iscsi_delete repr ex iscsi_name w;
        c = cmd_bdev_iscsi_delete iscsi_name
    in created_devices (snd r)
         = (if isl (fst r) then created_devices w else created_devices w - {iscsi_name})
       \<and> executed (snd r) = executed w @ [c]
       \<and> (\<not> isl (fst r) \<longleftrightarrow> (\<exists>out. ex c = Returned out [])))
   \<and> (let r = connect_cloud_disk repr ex iqn ip w;
        n = projr (fst (find_unique_name ''iscsi'' ip iqn w));
        b = projr (fst (find_unique_name ''blk'' ip iqn w))
    in created_devices w \<subseteq> created_devices (snd r)
       \<and> (\<forall>x. x \<in> created_devices (snd r) \<and> x \<notin> created_devices w \<longrightarrow>
              (x = n \<and> (\<exists>out. ex (cmd_bdev_iscsi_create n iqn ip) = Returned out []))
              \<or> (x = b \<and> (\<exists>out. ex (cmd_emulator_virtio_blk_device_create b n) = Returned out []))))
   \<and> (let r = disconnect_cloud_disk repr ex iqn ip w;
        n = projr (fst (find_unique_name ''iscsi'' ip iqn w));
        b = projr (fst (find_unique_name ''blk'' ip iqn w))
    in created_devices (snd r) \<subseteq> created_devices w
       \<and> (\<forall>x. x \<in> created_devices w \<and> x \<notin> created_devices (snd r) \<longrightarrow>
              (x = b \<and> (\<exists>out. ex (cmd_emulator_virtio_blk_device_delete b) = Returned out []))
              \<or> (x = n \<and> (\<exists>out. ex (cmd_bdev_iscsi_delete n) = Returned out []))))"
  apply (intro conjI)
  subgoal by (auto simp add: create_iscsi_eq find_unique_name_eq Let_def command_ok_iff)
  subgoal by (auto simp add: create_blk_eq find_unique_name_eq Let_def command_ok_iff)
  subgoal by (auto simp add: delete_blk_eq Let_def command_ok_iff)
  subgoal by (auto simp add: delete_iscsi_eq Let_def command_ok_iff)
  subgoal by (auto simp add: connect_eq find_unique_name_eq Let_def command_ok_iff)
  subgoal by (auto simp add: disconnect_eq find_unique_name_eq Let_def command_ok_iff)
  done

theorem name_set_mutation_invariant_witness:
  "created_devices (snd (execute_rpc_create_iscsi_bdev ascii_repr (tool [''bdev_iscsi_create''])
       ''iqn.2016-06.io.test:disk1'' ''10.0.0.5'' fresh)) = {}
   \<and> created_devices (snd (execute_rpc_create_iscsi_bdev ascii_repr (tool [])
       ''iqn.2016-06.io.test:disk1'' ''10.0.0.5'' fresh)) = {''iscsia7165833''}
   \<and> created_devices (snd (execute_rpc_bdev_iscsi_delete ascii_repr (tool [''bdev_iscsi_delete''])
       ''iscsia7165833'' \<lparr>created_devices = {''iscsia7165833''}, executed = []\<rparr>))
       = {''iscsia7165833''}
   \<and> created_devices (snd (execute_rpc_bdev_iscsi_delete ascii_repr (tool [])
       ''iscsia7165833'' \<lparr>created_devices = {''iscsia7165833''}, executed = []\<rparr>)) = {}"
proof -
  let ?iqn = "''iqn.2016-06.io.test:disk1''" and ?ip = "''10.0.0.5''"
  let ?w = "\<lparr>created_devices = {''iscsia7165833''}, executed = []\<rparr>"
  have a: "isl (fst (execute_rpc_create_iscsi_bdev ascii_repr (tool [''bdev_iscsi_create''])
                       ?iqn ?ip fresh))"
    by (simp add: create_iscsi_eq Let_def tool_simps command_ok_simps encodable_disk1 fresh_def)
  have b: "\<not> isl (fst (execute_rpc_create_iscsi_bdev ascii_repr (tool []) ?iqn ?ip fresh))"
    by (simp add: create_iscsi_eq Let_def tool_simps command_ok_simps encodable_disk1 fresh_def)
  have c: "isl (fst (execute_rpc_bdev_iscsi_delete ascii_repr (tool [''bdev_iscsi_delete''])
                       ''iscsia7165833'' ?w))"
    by (simp add: delete_iscsi_eq Let_def tool_simps command_ok_simps)
  have d: "\<not> isl (fst (execute_rpc_bdev_iscsi_delete ascii_repr (tool []) ''iscsia7165833'' ?w))"
    by (simp add: delete_iscsi_eq Let_def tool_simps command_ok_simps)
  have 1: "created_devices (snd (execute_rpc_create_iscsi_bdev ascii_repr
             (tool [''bdev_iscsi_create'']) ?iqn ?ip fresh)) = {}"
    using name_set_mutation_invariant
            [where ex = "tool [''bdev_iscsi_create'']" and iqn = ?iqn and ip = ?ip and w = fresh
               and repr = ascii_repr
               and iscsi_value = "[]" and blk_name = "[]" and iscsi_name = "[]", THEN conjunct1] a
    by (simp add: Let_def fresh_def)
  have 2: "created_devices (snd (execute_rpc_create_iscsi_bdev ascii_repr (tool []) ?iqn ?ip fresh))
             = {''iscsia7165833''}"
    using name_set_mutation_invariant
            [where ex = "tool []" and iqn = ?iqn and ip = ?ip and w = fresh and repr = ascii_repr
               and iscsi_value = "[]" and blk_name = "[]" and iscsi_name = "[]", THEN conjunct1] b
    by (simp add: Let_def find_unique_name_eq encodable_disk1 iscsi_disk1 fresh_def)
  have 3: "created_devices (snd (execute_rpc_bdev_iscsi_delete ascii_repr
             (tool [''bdev_iscsi_delete'']) ''iscsia7165833'' ?w)) = {''iscsia7165833''}"
    using name_set_mutation_invariant
            [where ex = "tool [''bdev_iscsi_delete'']" and iqn = ?iqn and ip = ?ip and w = ?w
               and repr = ascii_repr
               and iscsi_value = "[]" and blk_name = "[]" and iscsi_name = "''iscsia7165833''",
             THEN conjunct2, THEN conjunct2, THEN conjunct2, THEN conjunct1] c
    by (simp add: Let_def)
  have 4: "created_devices (snd (execute_rpc_bdev_iscsi_delete ascii_repr (tool [])
             ''iscsia7165833'' ?w)) = {}"
    using name_set_mutation_invariant
            [where ex = "tool []" and iqn = ?iqn and ip = ?ip and w = ?w and repr = ascii_repr
               and iscsi_value = "[]" and blk_name = "[]" and iscsi_name = "''iscsia7165833''",
             THEN conjunct2, THEN conjunct2, THEN conjunct2, THEN conjunct1] d
    by (simp add: Let_def)
  show ?thesis
    using 1 2 3 4 by (intro conjI)
qed

end
